theory Spec2Isabelle
  imports Complex_Main
begin

section \<open>Python values, exceptions and effects\<close>

text \<open>
  The repository is a set of export scripts: each one loads a pretrained separation
  model, traces it on one example tensor, converts the traced graph and saves the
  package. Every consequential step is a call into a third-party library (torch,
  openunmix, demucs, coremltools, pip, bash). The model keeps the scripts as they are
  written: a script is a sequence of effects (the prints and the library calls, with
  the arguments the source passes) that stops at the first exception; what each
  library call returns is read from an environment of oracles.
\<close>

text \<open>
  The exceptions the scripts meet: \<open>Exception msg\<close> is any exception a library call or
  a failed lookup raises (with \<open>str(e) = msg\<close>), \<open>CalledProcessError rc\<close> is raised by
  \<open>subprocess.check_call\<close> and by \<open>subprocess.run(..., check=True)\<close> on a non-zero
  return code, \<open>SystemExit n\<close> is raised by \<open>sys.exit(n)\<close>.
\<close>

datatype py_error = Exception string | CalledProcessError int | SystemExit int

datatype pyval = PyStr string | PyInt int | PyBool bool | PyFloat rat

text \<open>
  The parts of an f-string: literal text and formatted values. (The emoji and the
  leading newline of some literals of the source are left out of the literals.)
\<close>

datatype fpart =
    Lit string
  | Fmt_str string
  | Fmt_int int
  | Fmt_shape "int list"
  | Fmt_exc py_error

subsection \<open>Tensor declarations and the converter's arguments\<close>

text \<open>
  An axis of a \<open>ct.TensorType\<close> shape is a fixed integer or a
  \<open>ct.RangeDim(lower_bound, upper_bound, default)\<close>.
\<close>

datatype dim =
    Fixed int
  | RangeDim (lower_bound: int) (upper_bound: int) (range_default: int)

record tensor_type =
  name :: string
  shape :: "dim list"

datatype precision = FLOAT16 | FLOAT32

datatype target = iOS15 | iOS16 | iOS17 | macOS12 | macOS13 | macOS14

text \<open>The keyword arguments of \<open>ct.convert\<close>, with the traced graph it is given.\<close>

record 'g convert_call =
  traced :: 'g
  inputs :: "tensor_type list"
  convert_to :: string
  compute_precision :: precision
  minimum_deployment_target :: target

subsection \<open>Models\<close>

text \<open>
  What \<open>demucs.pretrained.get_model\<close> returns: a model that may have the attribute
  \<open>models\<close> (a bag of constituent models) or not.
\<close>

datatype demucs = Demucs (label: string) (models: "demucs list option")

text \<open>
  What \<open>openunmix.utils.load_separator\<close> returns: a separator with its dictionary
  \<open>target_models\<close> from stem names to the per-stem sub-models.
\<close>

record separator =
  sep_label :: string
  target_models :: "(string \<times> string) list"

text \<open>
  The class \<open>DemucsWrapper\<close> of \<open>run_conversion.py\<close>: an object holding \<open>self.model\<close>.
\<close>

datatype demucs_wrapper = DemucsWrapper (model: demucs)

text \<open>The torch modules a script can put in evaluation mode, call or trace.\<close>

datatype nn_module =
    Sep separator
  | Target string
  | Model demucs
  | Wrapped demucs_wrapper

subsection \<open>Effects\<close>

datatype ('g, 'p) effect =
    Print "fpart list"
  | Traceback py_error
  | Import "string list"
  | Check_call "string list"
  | Load_separator "(string \<times> pyval) list"
  | Get_model string
  | Eval nn_module
  | Randn "int list"
  | Jit_trace nn_module "int list" "bool option"
  | Apply_model demucs "int list" "(string \<times> pyval) list"
  | Forward nn_module "int list"
  | Ct_convert "'g convert_call"
  | Set_attr 'p string string
  | Save 'p string
  | Make_archive string string string
  | Write_file string
  | Sh string
  | Subprocess_run "string list"

text \<open>
  The environment: what each external call returns. A library call returns its value
  or the message of the exception it raises; a process returns its exit status.
  \<open>jit_trace\<close> takes the module, the shape of the example input and the
  \<open>check_trace\<close> keyword as the call site passes it (\<open>None\<close> when it is not passed).
\<close>

record ('g, 'p) env =
  import_modules :: "string list \<Rightarrow> string option"
  sys_executable :: string
  check_call :: "string list \<Rightarrow> int"
  load_separator :: "(string \<times> pyval) list \<Rightarrow> string + separator"
  get_model :: "string \<Rightarrow> string + demucs"
  jit_trace :: "nn_module \<Rightarrow> int list \<Rightarrow> bool option \<Rightarrow> string + 'g"
  apply_model :: "demucs \<Rightarrow> int list \<Rightarrow> (string \<times> pyval) list \<Rightarrow> string + int list"
  forward :: "nn_module \<Rightarrow> int list \<Rightarrow> string + int list"
  ct_convert :: "'g convert_call \<Rightarrow> string + 'p"
  save :: "'p \<Rightarrow> string \<Rightarrow> string option"
  make_archive :: "string \<Rightarrow> string \<Rightarrow> string \<Rightarrow> string option"
  numpy_version :: string
  write_file :: "string \<Rightarrow> string option"
  sh :: "string \<Rightarrow> int"
  spawn :: "string list \<Rightarrow> string option"

subsection \<open>Sequencing with exceptions\<close>

text \<open>
  A computation is the list of its effects, in order, and its outcome: the exception
  that ended it or its value.
\<close>

type_synonym ('g, 'p, 'a) py = "('g, 'p) effect list \<times> (py_error + 'a)"

definition py_bind :: "('g, 'p, 'a) py \<Rightarrow> ('a \<Rightarrow> ('g, 'p, 'b) py) \<Rightarrow> ('g, 'p, 'b) py" where
  "py_bind m f =
     (case m of
        (es, Inl err) \<Rightarrow> (es, Inl err)
      | (es, Inr a) \<Rightarrow> (case f a of (es', r) \<Rightarrow> (es @ es', r)))"

definition emit :: "('g, 'p) effect \<Rightarrow> ('g, 'p, unit) py" where
  "emit e = ([e], Inr ())"

definition print :: "fpart list \<Rightarrow> ('g, 'p, unit) py" where
  "print parts = emit (Print parts)"

definition py_raise :: "py_error \<Rightarrow> ('g, 'p, 'a) py" where
  "py_raise err = ([], Inl err)"

text \<open>A library call: the effect, then its value or its exception.\<close>

definition call :: "('g, 'p) effect \<Rightarrow> string + 'a \<Rightarrow> ('g, 'p, 'a) py" where
  "call e r = ([e], (case r of Inl msg \<Rightarrow> Inl (Exception msg) | Inr v \<Rightarrow> Inr v))"

definition call_unit :: "('g, 'p) effect \<Rightarrow> string option \<Rightarrow> ('g, 'p, unit) py" where
  "call_unit e r = ([e], (case r of Some msg \<Rightarrow> Inl (Exception msg) | None \<Rightarrow> Inr ()))"

text \<open>\<open>d[k]\<close> on a dictionary: a missing key raises \<open>KeyError\<close>.\<close>

definition getitem :: "(string \<times> 'a) list \<Rightarrow> string \<Rightarrow> ('g, 'p, 'a) py" where
  "getitem d k =
     (case map_of d k of
        None \<Rightarrow> py_raise (Exception (''KeyError: '' @ k))
      | Some v \<Rightarrow> ([], Inr v))"

text \<open>
  A Python process: it ends with status 0 when the script returns, with the status
  given to \<open>sys.exit\<close> on \<open>SystemExit\<close>, and with a printed traceback and status 1 on
  any other uncaught exception.
\<close>

definition python_process :: "('g, 'p, 'a) py \<Rightarrow> ('g, 'p) effect list \<times> int" where
  "python_process m =
     (case m of
        (es, Inr _) \<Rightarrow> (es, 0)
      | (es, Inl (SystemExit n)) \<Rightarrow> (es, n mod 256)
      | (es, Inl err) \<Rightarrow> (es @ [Traceback err], 1))"

text \<open>The keyword arguments both OpenUnmix converters and the probe load the separator with.\<close>

definition load_kwargs :: "string \<Rightarrow> (string \<times> pyval) list" where
  "load_kwargs model_kw =
     [(model_kw, PyStr ''umxhq''), (''niter'', PyInt 1),
      (''residual'', PyBool True), (''device'', PyStr ''cpu'')]"

section \<open>scripts/convert\_openunmix.py\<close>

definition convert_openunmix :: "('g, 'p) env \<Rightarrow> ('g, 'p, unit) py" where
  "convert_openunmix env =
     py_bind (print [Lit ''Loading OpenUnmix (umxhq)...'']) (\<lambda>_.
     py_bind (call (Load_separator (load_kwargs ''model_str_or_path''))
                (load_separator env (load_kwargs ''model_str_or_path''))) (\<lambda>separator.
     py_bind (emit (Eval (Sep separator))) (\<lambda>_.
     py_bind (print [Lit ''Tracing model...'']) (\<lambda>_.
     let samples = 44100 * 3 in
     py_bind (emit (Randn [1, 2, samples])) (\<lambda>_.
     py_bind (call (Jit_trace (Sep separator) [1, 2, samples] (Some False))
                (jit_trace env (Sep separator) [1, 2, samples] (Some False))) (\<lambda>traced_model.
     py_bind (print [Lit ''Converting to Core ML...'']) (\<lambda>_.
     let input = \<lparr>name = ''audio'', shape = [Fixed 1, Fixed 2, Fixed samples]\<rparr>;
         args = \<lparr>traced = traced_model, inputs = [input], convert_to = ''mlprogram'',
                 compute_precision = FLOAT16, minimum_deployment_target = macOS13\<rparr> in
     py_bind (call (Ct_convert args) (ct_convert env args)) (\<lambda>mlmodel.
     py_bind (emit (Set_attr mlmodel ''author'' ''Sangeet AI'')) (\<lambda>_.
     py_bind (emit (Set_attr mlmodel ''short_description'' ''OpenUnmix (UMXHQ)'')) (\<lambda>_.
     let output_path = ''OpenUnmix.mlpackage'' in
     py_bind (print [Lit ''Saving to '', Fmt_str output_path, Lit ''...'']) (\<lambda>_.
     py_bind (call_unit (Save mlmodel output_path) (save env mlmodel output_path)) (\<lambda>_.
     print [Lit ''SUCCESS!'']))))))))))))"

text \<open>The script: its imports, then \<open>convert_openunmix()\<close>.\<close>

definition convert_openunmix_main :: "('g, 'p) env \<Rightarrow> ('g, 'p, unit) py" where
  "convert_openunmix_main env =
     (let mods = [''torch'', ''openunmix'', ''coremltools'', ''shutil'', ''os''] in
      py_bind (call_unit (Import mods) (import_modules env mods)) (\<lambda>_.
      convert_openunmix env))"

definition convert_openunmix_script :: "('g, 'p) env \<Rightarrow> ('g, 'p) effect list \<times> int" where
  "convert_openunmix_script env = python_process (convert_openunmix_main env)"

section \<open>colab\_openunmix.py\<close>

definition colab_convert_openunmix :: "('g, 'p) env \<Rightarrow> ('g, 'p, unit) py" where
  "colab_convert_openunmix env =
     py_bind (print [Lit ''Loading OpenUnmix (umxhq)...'']) (\<lambda>_.
     py_bind (call (Load_separator (load_kwargs ''model_str''))
                (load_separator env (load_kwargs ''model_str''))) (\<lambda>separator.
     py_bind (emit (Eval (Sep separator))) (\<lambda>_.
     py_bind (print [Lit ''Tracing model...'']) (\<lambda>_.
     let samples = 44100 * 10 in
     py_bind (emit (Randn [1, 2, samples])) (\<lambda>_.
     py_bind (call (Jit_trace (Sep separator) [1, 2, samples] None)
                (jit_trace env (Sep separator) [1, 2, samples] None)) (\<lambda>traced_model.
     py_bind (print [Lit ''Converting to Core ML...'']) (\<lambda>_.
     let input = \<lparr>name = ''audio'', shape = [Fixed 1, Fixed 2, Fixed samples]\<rparr>;
         args = \<lparr>traced = traced_model, inputs = [input], convert_to = ''mlprogram'',
                 compute_precision = FLOAT16, minimum_deployment_target = macOS13\<rparr> in
     py_bind (call (Ct_convert args) (ct_convert env args)) (\<lambda>mlmodel.
     py_bind (emit (Set_attr mlmodel ''author'' ''Sangeet AI'')) (\<lambda>_.
     py_bind (emit (Set_attr mlmodel ''short_description'' ''OpenUnmix (UMXHQ)'')) (\<lambda>_.
     let output_path = ''OpenUnmix.mlpackage'' in
     py_bind (print [Lit ''Saving to '', Fmt_str output_path, Lit ''...'']) (\<lambda>_.
     py_bind (call_unit (Save mlmodel output_path) (save env mlmodel output_path)) (\<lambda>_.
     py_bind (print [Lit ''Zipping...'']) (\<lambda>_.
     py_bind (call_unit (Make_archive ''OpenUnmix'' ''zip'' output_path)
                (make_archive env ''OpenUnmix'' ''zip'' output_path)) (\<lambda>_.
     py_bind (print [Lit ''SUCCESS!'']) (\<lambda>_.
     print [Lit ''Download 'OpenUnmix.zip' from files.''])))))))))))))))"

text \<open>\<open>subprocess.check_call\<close>: a non-zero return code raises \<open>CalledProcessError\<close>.\<close>

definition subprocess_check_call :: "('g, 'p) env \<Rightarrow> string list \<Rightarrow> ('g, 'p, unit) py" where
  "subprocess_check_call env cmd =
     ([Check_call cmd],
      (if check_call env cmd \<noteq> 0 then Inl (CalledProcessError (check_call env cmd))
       else Inr ()))"

definition colab_openunmix_main :: "('g, 'p) env \<Rightarrow> ('g, 'p, unit) py" where
  "colab_openunmix_main env =
     (let mods1 = [''subprocess'', ''sys''];
          mods2 = [''torch'', ''openunmix'', ''coremltools'', ''shutil''] in
      py_bind (call_unit (Import mods1) (import_modules env mods1)) (\<lambda>_.
      py_bind (print [Lit ''INSTALLING OPENUNMIX...'']) (\<lambda>_.
      py_bind (subprocess_check_call env
                 [sys_executable env, ''-m'', ''pip'', ''install'', ''openunmix'', ''torch'',
                  ''torchaudio'', ''coremltools'', ''numpy<2'']) (\<lambda>_.
      py_bind (call_unit (Import mods2) (import_modules env mods2)) (\<lambda>_.
      colab_convert_openunmix env)))))"

definition colab_openunmix_script :: "('g, 'p) env \<Rightarrow> ('g, 'p) effect list \<times> int" where
  "colab_openunmix_script env = python_process (colab_openunmix_main env)"

section \<open>scripts/convert\_openunmix\_spectral.py\<close>

definition convert_spectral :: "('g, 'p) env \<Rightarrow> ('g, 'p, unit) py" where
  "convert_spectral env =
     py_bind (print [Lit ''Loading OpenUnmix Vocals Model...'']) (\<lambda>_.
     py_bind (call (Load_separator (load_kwargs ''model_str_or_path''))
                (load_separator env (load_kwargs ''model_str_or_path''))) (\<lambda>separator.
     py_bind (getitem (target_models separator) ''vocals'') (\<lambda>vocals_model.
     py_bind (emit (Eval (Target vocals_model))) (\<lambda>_.
     let nb_channels = 2; nb_bins = 2049; dummy_frames = 100;
         dummy_input = [1, nb_channels, nb_bins, dummy_frames] in
     py_bind (emit (Randn dummy_input)) (\<lambda>_.
     py_bind (print [Lit ''Tracing with input: '', Fmt_shape dummy_input, Lit ''...'']) (\<lambda>_.
     py_bind (call (Jit_trace (Target vocals_model) dummy_input None)
                (jit_trace env (Target vocals_model) dummy_input None)) (\<lambda>traced_model.
     py_bind (print [Lit ''Converting to Core ML...'']) (\<lambda>_.
     let time_dim = RangeDim 10 5000 100;
         input = \<lparr>name = ''magnitude_spectrogram'',
                   shape = [Fixed 1, Fixed 2, Fixed 2049, time_dim]\<rparr>;
         args = \<lparr>traced = traced_model, inputs = [input], convert_to = ''mlprogram'',
                 compute_precision = FLOAT16, minimum_deployment_target = macOS13\<rparr> in
     py_bind (call (Ct_convert args) (ct_convert env args)) (\<lambda>mlmodel.
     py_bind (emit (Set_attr mlmodel ''author'' ''Sangeet AI'')) (\<lambda>_.
     py_bind (emit (Set_attr mlmodel ''short_description'' ''OpenUnmix Vocals (Spectral)'')) (\<lambda>_.
     let output_path = ''OpenUnmixSpectrogram.mlpackage'' in
     py_bind (print [Lit ''Saving to '', Fmt_str output_path, Lit ''...'']) (\<lambda>_.
     py_bind (call_unit (Save mlmodel output_path) (save env mlmodel output_path)) (\<lambda>_.
     py_bind (print [Lit ''Zipping...'']) (\<lambda>_.
     py_bind (call_unit (Make_archive ''OpenUnmixSpectrogram'' ''zip'' output_path)
                (make_archive env ''OpenUnmixSpectrogram'' ''zip'' output_path)) (\<lambda>_.
     print [Lit ''SUCCESS!''])))))))))))))))"

definition convert_spectral_main :: "('g, 'p) env \<Rightarrow> ('g, 'p, unit) py" where
  "convert_spectral_main env =
     (let mods = [''torch'', ''openunmix.utils'', ''coremltools'', ''shutil'', ''os''] in
      py_bind (call_unit (Import mods) (import_modules env mods)) (\<lambda>_.
      convert_spectral env))"

definition convert_spectral_script :: "('g, 'p) env \<Rightarrow> ('g, 'p) effect list \<times> int" where
  "convert_spectral_script env = python_process (convert_spectral_main env)"

section \<open>colab\_script.py\<close>

subsection \<open>The embedded run\_conversion.py\<close>

text \<open>\<open>s.startswith(p)\<close>.\<close>

definition startswith :: "string \<Rightarrow> string \<Rightarrow> bool" where
  "startswith s p = (take (length p) s = p)"

text \<open>
  The class \<open>DemucsWrapper\<close>: \<open>__init__\<close> stores the model and puts it in evaluation
  mode, \<open>forward\<close> runs \<open>apply_model\<close> on it.
\<close>

definition DemucsWrapper_init :: "demucs \<Rightarrow> ('g, 'p, demucs_wrapper) py" where
  "DemucsWrapper_init m =
     py_bind (emit (Eval (Model m))) (\<lambda>_. ([], Inr (DemucsWrapper m)))"

definition DemucsWrapper_forward ::
  "('g, 'p) env \<Rightarrow> demucs_wrapper \<Rightarrow> int list \<Rightarrow> ('g, 'p, int list) py" where
  "DemucsWrapper_forward env self x =
     (let kwargs = [(''shifts'', PyInt 0), (''split'', PyBool True),
                    (''overlap'', PyFloat (1 / 4)), (''progress'', PyBool False)] in
      call (Apply_model (model self) x kwargs) (apply_model env (model self) x kwargs))"

text \<open>
  The model selection: \<open>bag_model.models[0]\<close> when the loaded model has the attribute
  \<open>models\<close> (indexing an empty list raises \<open>IndexError\<close>), the loaded model otherwise.
\<close>

definition select_model :: "demucs \<Rightarrow> ('g, 'p, demucs) py" where
  "select_model bag_model =
     (case models bag_model of
        Some ms \<Rightarrow>
          (case ms of
             [] \<Rightarrow> py_raise (Exception ''IndexError: index 0 is out of range'')
           | m # _ \<Rightarrow> ([], Inr m))
      | None \<Rightarrow> ([], Inr bag_model))"

definition run_conversion :: "('g, 'p) env \<Rightarrow> ('g, 'p, unit) py" where
  "run_conversion env =
     (let mods = [''torch'', ''torch.nn'', ''demucs.pretrained'', ''demucs.apply'',
                  ''coremltools'', ''shutil'', ''numpy'', ''sys''] in
      py_bind (call_unit (Import mods) (import_modules env mods)) (\<lambda>_.
      py_bind (print [Lit ''Numpy Version inside venv: '', Fmt_str (numpy_version env)]) (\<lambda>_.
      py_bind (if startswith (numpy_version env) ''2''
               then py_bind (print [Lit ''Error: Numpy 2.x still present!'']) (\<lambda>_.
                    py_raise (SystemExit 1))
               else ([], Inr ())) (\<lambda>_.
      py_bind (print [Lit ''Downloading Demucs...'']) (\<lambda>_.
      py_bind (call (Get_model ''htdemucs'') (get_model env ''htdemucs'')) (\<lambda>bag_model.
      py_bind (select_model bag_model) (\<lambda>model.
      py_bind (emit (Eval (Model model))) (\<lambda>_.
      py_bind (print [Lit ''Tracing...'']) (\<lambda>_.
      let samples = 343980 in
      py_bind (emit (Randn [1, 2, samples])) (\<lambda>_.
      py_bind (call (Jit_trace (Model model) [1, 2, samples] None)
                 (jit_trace env (Model model) [1, 2, samples] None)) (\<lambda>traced_model.
      py_bind (print [Lit ''Converting...'']) (\<lambda>_.
      let input = \<lparr>name = ''audio'', shape = [Fixed 1, Fixed 2, Fixed samples]\<rparr>;
          args = \<lparr>traced = traced_model, inputs = [input], convert_to = ''mlprogram'',
                  compute_precision = FLOAT16, minimum_deployment_target = macOS13\<rparr> in
      py_bind (call (Ct_convert args) (ct_convert env args)) (\<lambda>mlmodel.
      let output_path = ''Demucs.mlpackage'' in
      py_bind (call_unit (Save mlmodel output_path) (save env mlmodel output_path)) (\<lambda>_.
      py_bind (call_unit (Make_archive ''Demucs'' ''zip'' output_path)
                 (make_archive env ''Demucs'' ''zip'' output_path)) (\<lambda>_.
      print [Lit ''Done! Output at Demucs.zip''])))))))))))))))"

subsection \<open>The shell script runner.sh\<close>

text \<open>
  The script runs under \<open>set -e\<close>: the first command with a non-zero status ends it
  with that status. (\<open>set -x\<close> only echoes the commands to the error stream.)
\<close>

datatype sh_step = Echo string | Command string | Python_run_conversion

definition runner_steps :: "sh_step list" where
  "runner_steps =
     [Echo ''Setting up isolated environment...'',
      Command ''python3 --version'',
      Command ''python3 -m venv venv'',
      Command ''source venv/bin/activate'',
      Echo ''Installing clean dependencies...'',
      Command ''pip install --upgrade pip'',
      Command ''pip install numpy<2'',
      Command ''pip install torch==2.4.0 torchaudio==2.4.0 --index-url https://download.pytorch.org/whl/cpu'',
      Command ''pip install demucs coremltools'',
      Echo ''Environment Ready.'',
      Command ''cat <<EOF > run_conversion.py'',
      Echo ''Running conversion script...'',
      Python_run_conversion]"

definition exec_step :: "('g, 'p) env \<Rightarrow> sh_step \<Rightarrow> ('g, 'p) effect list \<times> int" where
  "exec_step env step =
     (case step of
        Echo s \<Rightarrow> ([Print [Lit s]], 0)
      | Command c \<Rightarrow> ([Sh c], sh env c)
      | Python_run_conversion \<Rightarrow>
          (case python_process (run_conversion env) of
             (es, st) \<Rightarrow> (Sh ''python run_conversion.py'' # es, st)))"

fun run_set_e ::
  "(sh_step \<Rightarrow> ('g, 'p) effect list \<times> int) \<Rightarrow> sh_step list \<Rightarrow> ('g, 'p) effect list \<times> int" where
  "run_set_e ex [] = ([], 0)"
| "run_set_e ex (c # cs) =
     (case ex c of
        (es, st) \<Rightarrow>
          if st \<noteq> 0 then (es, st)
          else (case run_set_e ex cs of (es', st') \<Rightarrow> (es @ es', st')))"

definition runner_sh :: "('g, 'p) env \<Rightarrow> ('g, 'p) effect list \<times> int" where
  "runner_sh env = run_set_e (exec_step env) runner_steps"

subsection \<open>The invoking Python process\<close>

text \<open>
  \<open>subprocess.run(cmd, check=True)\<close>: it starts the child (which can fail), waits for
  it, and raises \<open>CalledProcessError\<close> when the child's status is not 0. The child's
  output is not captured, so its effects appear in the invoking process's output.
\<close>

definition subprocess_run_check ::
  "('g, 'p) env \<Rightarrow> string list \<Rightarrow> ('g, 'p) effect list \<times> int \<Rightarrow> ('g, 'p, int) py" where
  "subprocess_run_check env cmd child =
     (case spawn env cmd of
        Some msg \<Rightarrow> ([Subprocess_run cmd], Inl (Exception msg))
      | None \<Rightarrow>
          (case child of
             (es, rc) \<Rightarrow>
               (Subprocess_run cmd # es,
                (if rc \<noteq> 0 then Inl (CalledProcessError rc) else Inr rc))))"

text \<open>\<open>try: ... except subprocess.CalledProcessError as e: ...\<close>\<close>

definition except_CalledProcessError ::
  "('g, 'p, 'a) py \<Rightarrow> (int \<Rightarrow> ('g, 'p, 'a) py) \<Rightarrow> ('g, 'p, 'a) py" where
  "except_CalledProcessError m handler =
     (case m of
        (es, Inl (CalledProcessError rc)) \<Rightarrow>
          (case handler rc of (es', r) \<Rightarrow> (es @ es', r))
      | _ \<Rightarrow> m)"

definition colab_script_main :: "('g, 'p) env \<Rightarrow> ('g, 'p, unit) py" where
  "colab_script_main env =
     py_bind (call_unit (Import [''subprocess'']) (import_modules env [''subprocess''])) (\<lambda>_.
     py_bind (call_unit (Write_file ''runner.sh'') (write_file env ''runner.sh'')) (\<lambda>_.
     py_bind (print [Lit ''Starting isolated shell execution...'']) (\<lambda>_.
     py_bind (print [Lit ''----------------------------------------------------------------'']) (\<lambda>_.
     except_CalledProcessError
       (py_bind (subprocess_run_check env [''bash'', ''runner.sh''] (runner_sh env)) (\<lambda>result.
        ([], Inr ())))
       (\<lambda>returncode. print [Lit ''Script failed with code '', Fmt_int returncode])))))"

definition colab_script :: "('g, 'p) env \<Rightarrow> ('g, 'p) effect list \<times> int" where
  "colab_script env = python_process (colab_script_main env)"

section \<open>scripts/inspect\_umx.py: the probe\<close>

text \<open>\<open>try: ... except Exception as e: ...\<close>: \<open>SystemExit\<close> is not an \<open>Exception\<close>.\<close>

definition except_Exception ::
  "('g, 'p, 'a) py \<Rightarrow> (py_error \<Rightarrow> ('g, 'p, 'a) py) \<Rightarrow> ('g, 'p, 'a) py" where
  "except_Exception m handler =
     (case m of
        (es, Inl (SystemExit n)) \<Rightarrow> m
      | (es, Inl e) \<Rightarrow> (case handler e of (es', r) \<Rightarrow> (es @ es', r))
      | _ \<Rightarrow> m)"

text \<open>
  The script from its line 24 on, for the sub-model \<open>vocals\<close> that the lines before
  took from the loaded separator: the two candidate shapes, each tried in its own
  \<open>try\<close> block.
\<close>

definition inspect_probe :: "('g, 'p) env \<Rightarrow> string \<Rightarrow> ('g, 'p, unit) py" where
  "inspect_probe env vocals =
     py_bind (emit (Randn [1, 100, 4098])) (\<lambda>_.
     py_bind (print [Lit ''Attempting to infer shape...'']) (\<lambda>_.
     py_bind (emit (Randn [1, 2, 2049, 100])) (\<lambda>_.
     py_bind (except_Exception
                (py_bind (call (Forward (Target vocals) [1, 2, 2049, 100])
                            (forward env (Target vocals) [1, 2, 2049, 100])) (\<lambda>out.
                 print [Lit ''Success with (1, 2, 2049, 100). Output: '', Fmt_shape out]))
                (\<lambda>e. print [Lit ''Failed with (1, 2, 2049, 100): '', Fmt_exc e])) (\<lambda>_.
     py_bind (emit (Randn [1, 100, 2049 * 2])) (\<lambda>_.
     except_Exception
       (py_bind (call (Forward (Target vocals) [1, 100, 2049 * 2])
                   (forward env (Target vocals) [1, 100, 2049 * 2])) (\<lambda>out.
        print [Lit ''Success with (1, 100, 4098): '', Fmt_shape out]))
       (\<lambda>e. print [Lit ''Failed with (1, 100, 4098): '', Fmt_exc e]))))))"

section \<open>Observations on a run\<close>

definition convert_calls :: "('g, 'p) effect list \<Rightarrow> 'g convert_call list" where
  "convert_calls es = concat (map (\<lambda>e. case e of Ct_convert c \<Rightarrow> [c] | _ \<Rightarrow> []) es)"

definition trace_calls :: "('g, 'p) effect list \<Rightarrow> (nn_module \<times> int list \<times> bool option) list" where
  "trace_calls es =
     concat (map (\<lambda>e. case e of Jit_trace m s k \<Rightarrow> [(m, s, k)] | _ \<Rightarrow> []) es)"

definition eval_calls :: "('g, 'p) effect list \<Rightarrow> nn_module list" where
  "eval_calls es = concat (map (\<lambda>e. case e of Eval m \<Rightarrow> [m] | _ \<Rightarrow> []) es)"

text \<open>
  \<open>torch.jit.trace\<close> validates the trace (it re-runs and compares) unless the call
  passes \<open>check_trace=False\<close>: the keyword's default is \<open>True\<close>.
\<close>

definition validation_enabled :: "bool option \<Rightarrow> bool" where
  "validation_enabled k = (case k of None \<Rightarrow> True | Some b \<Rightarrow> b)"

text \<open>The effects that load, prepare, run, trace, convert or save a model.\<close>

fun model_work :: "('g, 'p) effect \<Rightarrow> bool" where
  "model_work (Print _) = False"
| "model_work (Traceback _) = False"
| "model_work (Import _) = False"
| "model_work (Check_call _) = False"
| "model_work (Write_file _) = False"
| "model_work (Sh _) = False"
| "model_work (Subprocess_run _) = False"
| "model_work _ = True"

text \<open>
  The major version of a version string, as the specification reads it: the decimal
  number before the first dot.
\<close>

definition spec_major_version :: "string \<Rightarrow> nat option" where
  "spec_major_version v =
     (let ds = takeWhile (\<lambda>c. c \<noteq> CHR ''.'') v in
      if ds \<noteq> [] \<and> list_all (\<lambda>c. 48 \<le> (of_char c :: nat) \<and> (of_char c :: nat) \<le> 57) ds
      then Some (foldl (\<lambda>n c. 10 * n + (of_char c - 48)) 0 ds)
      else None)"

text \<open>
  An environment in which every external call succeeds; the sub-model accepts the
  shape \<open>(1, 2, 2049, 100)\<close> only.
\<close>

definition demo_separator :: separator where
  "demo_separator =
     \<lparr>sep_label = ''umxhq'',
      target_models = [(''vocals'', ''umxhq.vocals''), (''drums'', ''umxhq.drums''),
                       (''bass'', ''umxhq.bass''), (''other'', ''umxhq.other'')]\<rparr>"

definition demo_bag :: demucs where
  "demo_bag = Demucs ''htdemucs'' (Some [Demucs ''htdemucs.0'' None, Demucs ''htdemucs.1'' None])"

definition demo_env :: "(nat, nat) env" where
  "demo_env =
     \<lparr>import_modules = (\<lambda>_. None),
      sys_executable = ''/usr/bin/python3'',
      check_call = (\<lambda>_. 0),
      load_separator = (\<lambda>_. Inr demo_separator),
      get_model = (\<lambda>_. Inr demo_bag),
      jit_trace = (\<lambda>_ _ _. Inr 7),
      apply_model = (\<lambda>_ s _. Inr s),
      forward = (\<lambda>_ s. if s = [1, 2, 2049, 100] then Inr [1, 2, 2049, 100]
                        else Inl ''size mismatch''),
      ct_convert = (\<lambda>_. Inr 9),
      save = (\<lambda>_ _. None),
      make_archive = (\<lambda>_ _ _. None),
      numpy_version = ''1.26.4'',
      write_file = (\<lambda>_. None),
      sh = (\<lambda>_. 0),
      spawn = (\<lambda>_. None)\<rparr>"

text \<open>
  An environment in which the converter rejects every graph and the virtual
  environment has numpy 2.0.1.
\<close>

definition failing_env :: "(nat, nat) env" where
  "failing_env =
     demo_env\<lparr>ct_convert := (\<lambda>_. Inl ''unsupported op''), numpy_version := ''2.0.1''\<rparr>"

text \<open>
  An environment whose loader has the signature of \<open>openunmix.utils.load_separator\<close>:
  the model is named by the keyword \<open>model_str_or_path\<close>, and a call without it (with
  an unknown keyword in its place) raises \<open>TypeError\<close>. Every other call succeeds.
\<close>

definition strict_env :: "(nat, nat) env" where
  "strict_env =
     demo_env\<lparr>load_separator :=
       (\<lambda>kwargs. if map_of kwargs ''model_str_or_path'' = None
                 then Inl ''TypeError: load_separator() got an unexpected keyword argument''
                 else Inr demo_separator)\<rparr>"

section \<open>Reasoning about sequenced effects\<close>

lemma fst_py_bind:
  "fst (py_bind m f) = (case snd m of Inl err \<Rightarrow> fst m | Inr a \<Rightarrow> fst m @ fst (f a))"
  by (cases m) (simp add: py_bind_def split: sum.splits prod.splits)

lemma snd_py_bind:
  "snd (py_bind m f) = (case snd m of Inl err \<Rightarrow> Inl err | Inr a \<Rightarrow> snd (f a))"
  by (cases m) (simp add: py_bind_def split: sum.splits prod.splits)

lemmas py_simps = fst_py_bind snd_py_bind emit_def print_def py_raise_def call_def
  call_unit_def getitem_def Let_def

lemma list_all_py_bind:
  "list_all P (fst m) \<Longrightarrow> (\<And>a. snd m = Inr a \<Longrightarrow> list_all P (fst (f a))) \<Longrightarrow>
   list_all P (fst (py_bind m f))"
  by (simp add: fst_py_bind split: sum.splits)

lemma list_all_run_set_e:
  "(\<And>c. c \<in> set cs \<Longrightarrow> list_all P (fst (ex c))) \<Longrightarrow> list_all P (fst (run_set_e ex cs))"
proof (induction cs)
  case Nil
  then show ?case by simp
next
  case (Cons a cs)
  have h: "list_all P (fst (ex a))" by (simp add: Cons.prems)
  have t: "list_all P (fst (run_set_e ex cs))" by (simp add: Cons.IH Cons.prems)
  from h t show ?case by (cases "ex a"; cases "run_set_e ex cs") simp
qed

lemma run_set_e_fails:
  "c \<in> set cs \<Longrightarrow> snd (ex c) \<noteq> 0 \<Longrightarrow> snd (run_set_e ex cs) \<noteq> 0"
proof (induction cs)
  case Nil
  then show ?case by simp
next
  case (Cons a cs)
  show ?case
  proof (cases "snd (ex a) = 0")
    case True
    with Cons.prems have "c \<in> set cs" by auto
    from Cons.IH [OF this Cons.prems(2)] True show ?thesis
      by (cases "ex a"; cases "run_set_e ex cs") simp
  next
    case False
    then show ?thesis by (cases "ex a") simp
  qed
qed

lemma list_all_python_process:
  "list_all P (fst m) \<Longrightarrow> (\<And>err. P (Traceback err)) \<Longrightarrow> list_all P (fst (python_process m))"
  by (cases m) (auto simp: python_process_def split: sum.splits py_error.splits)

section \<open>The conversion call of each export\<close>

lemma convert_spectral_calls:
  "convert_calls (fst (convert_spectral env)) = [] \<or>
   (\<exists>g. convert_calls (fst (convert_spectral env)) =
      [\<lparr>traced = g,
        inputs = [\<lparr>name = ''magnitude_spectrogram'',
                   shape = [Fixed 1, Fixed 2, Fixed 2049, RangeDim 10 5000 100]\<rparr>],
        convert_to = ''mlprogram'', compute_precision = FLOAT16,
        minimum_deployment_target = macOS13\<rparr>])"
  by (auto simp add: convert_spectral_def py_simps convert_calls_def
      split: sum.split option.split)

lemma convert_spectral_success:
  "snd (convert_spectral env) = Inr () \<Longrightarrow> length (convert_calls (fst (convert_spectral env))) = 1"
  by (auto simp add: convert_spectral_def py_simps convert_calls_def
      split: sum.split option.split)

lemma convert_openunmix_calls:
  "convert_calls (fst (convert_openunmix env)) = [] \<or>
   (\<exists>g. convert_calls (fst (convert_openunmix env)) =
      [\<lparr>traced = g,
        inputs = [\<lparr>name = ''audio'', shape = [Fixed 1, Fixed 2, Fixed 132300]\<rparr>],
        convert_to = ''mlprogram'', compute_precision = FLOAT16,
        minimum_deployment_target = macOS13\<rparr>])"
  by (auto simp add: convert_openunmix_def py_simps convert_calls_def
      split: sum.split option.split)

lemma convert_openunmix_success:
  "snd (convert_openunmix env) = Inr () \<Longrightarrow> length (convert_calls (fst (convert_openunmix env))) = 1"
  by (auto simp add: convert_openunmix_def py_simps convert_calls_def
      split: sum.split option.split)

lemma colab_convert_openunmix_calls:
  "convert_calls (fst (colab_convert_openunmix env)) = [] \<or>
   (\<exists>g. convert_calls (fst (colab_convert_openunmix env)) =
      [\<lparr>traced = g,
        inputs = [\<lparr>name = ''audio'', shape = [Fixed 1, Fixed 2, Fixed 441000]\<rparr>],
        convert_to = ''mlprogram'', compute_precision = FLOAT16,
        minimum_deployment_target = macOS13\<rparr>])"
  by (auto simp add: colab_convert_openunmix_def py_simps convert_calls_def
      split: sum.split option.split)

lemma colab_convert_openunmix_success:
  "snd (colab_convert_openunmix env) = Inr () \<Longrightarrow>
   length (convert_calls (fst (colab_convert_openunmix env))) = 1"
  by (auto simp add: colab_convert_openunmix_def py_simps convert_calls_def
      split: sum.split option.split)

lemma colab_convert_openunmix_traces:
  "trace_calls (fst (colab_convert_openunmix env)) = [] \<or>
   (\<exists>sep. trace_calls (fst (colab_convert_openunmix env)) = [(Sep sep, [1, 2, 441000], None)])"
  by (auto simp add: colab_convert_openunmix_def py_simps trace_calls_def
      split: sum.split option.split)

lemma run_conversion_calls:
  "convert_calls (fst (run_conversion env)) = [] \<or>
   (\<exists>g. convert_calls (fst (run_conversion env)) =
      [\<lparr>traced = g,
        inputs = [\<lparr>name = ''audio'', shape = [Fixed 1, Fixed 2, Fixed 343980]\<rparr>],
        convert_to = ''mlprogram'', compute_precision = FLOAT16,
        minimum_deployment_target = macOS13\<rparr>])"
  by (auto simp add: run_conversion_def select_model_def py_simps convert_calls_def
      split: sum.split option.split list.split)

text \<open>The runs in the environment where every call succeeds.\<close>

lemma convert_spectral_demo:
  "snd (convert_spectral demo_env) = Inr () \<and>
   convert_calls (fst (convert_spectral demo_env)) =
     [\<lparr>traced = 7,
       inputs = [\<lparr>name = ''magnitude_spectrogram'',
                  shape = [Fixed 1, Fixed 2, Fixed 2049, RangeDim 10 5000 100]\<rparr>],
       convert_to = ''mlprogram'', compute_precision = FLOAT16,
       minimum_deployment_target = macOS13\<rparr>]"
  by (simp add: convert_spectral_def py_simps convert_calls_def demo_env_def demo_separator_def
      load_kwargs_def)

lemma convert_openunmix_demo:
  "snd (convert_openunmix demo_env) = Inr () \<and>
   convert_calls (fst (convert_openunmix demo_env)) =
     [\<lparr>traced = 7,
       inputs = [\<lparr>name = ''audio'', shape = [Fixed 1, Fixed 2, Fixed 132300]\<rparr>],
       convert_to = ''mlprogram'', compute_precision = FLOAT16,
       minimum_deployment_target = macOS13\<rparr>] \<and>
   trace_calls (fst (convert_openunmix demo_env)) =
     [(Sep demo_separator, [1, 2, 132300], Some False)]"
  by (simp add: convert_openunmix_def py_simps convert_calls_def trace_calls_def demo_env_def)

lemma colab_convert_openunmix_demo:
  "snd (colab_convert_openunmix demo_env) = Inr () \<and>
   convert_calls (fst (colab_convert_openunmix demo_env)) =
     [\<lparr>traced = 7,
       inputs = [\<lparr>name = ''audio'', shape = [Fixed 1, Fixed 2, Fixed 441000]\<rparr>],
       convert_to = ''mlprogram'', compute_precision = FLOAT16,
       minimum_deployment_target = macOS13\<rparr>] \<and>
   trace_calls (fst (colab_convert_openunmix demo_env)) =
     [(Sep demo_separator, [1, 2, 441000], None)]"
  by (simp add: colab_convert_openunmix_def py_simps convert_calls_def trace_calls_def
      demo_env_def)

lemma run_conversion_demo:
  "snd (run_conversion demo_env) = Inr () \<and>
   convert_calls (fst (run_conversion demo_env)) =
     [\<lparr>traced = 7,
       inputs = [\<lparr>name = ''audio'', shape = [Fixed 1, Fixed 2, Fixed 343980]\<rparr>],
       convert_to = ''mlprogram'', compute_precision = FLOAT16,
       minimum_deployment_target = macOS13\<rparr>] \<and>
   trace_calls (fst (run_conversion demo_env)) =
     [(Model (Demucs ''htdemucs.0'' None), [1, 2, 343980], None)]"
  by (simp add: run_conversion_def select_model_def startswith_def py_simps convert_calls_def
      trace_calls_def demo_env_def demo_bag_def)

lemma convert_openunmix_traces:
  "trace_calls (fst (convert_openunmix env)) = [] \<or>
   (\<exists>sep. trace_calls (fst (convert_openunmix env)) = [(Sep sep, [1, 2, 132300], Some False)])"
  by (auto simp add: convert_openunmix_def py_simps trace_calls_def
      split: sum.split option.split)

lemma set_convert_calls: "set (convert_calls es) = {c. Ct_convert c \<in> set es}"
  by (induction es) (auto simp: convert_calls_def split: effect.splits)

lemma set_trace_calls: "set (trace_calls es) = {(m, s, k). Jit_trace m s k \<in> set es}"
  by (induction es) (auto simp: trace_calls_def split: effect.splits)

text \<open>
  A property of effects that holds of every effect of \<open>run_conversion.py\<close> and of the
  effects of the shell script and of the invoking process holds of the whole run.
\<close>

lemma list_all_runner_sh:
  assumes "list_all P (fst (run_conversion env))"
    and "\<And>parts. P (Print parts)" and "\<And>c. P (Sh c)" and "\<And>err. P (Traceback err)"
  shows "list_all P (fst (runner_sh env))"
  unfolding runner_sh_def
proof (rule list_all_run_set_e)
  fix c
  have py: "list_all P (fst (python_process (run_conversion env)))"
    using assms(1) assms(4) by (rule list_all_python_process)
  obtain es st where pp: "python_process (run_conversion env) = (es, st)"
    by (cases "python_process (run_conversion env)")
  from py pp have "list_all P es" by simp
  with pp show "list_all P (fst (exec_step env c))"
    using assms(2,3) by (cases c) (simp_all add: exec_step_def)
qed

lemma list_all_colab_script:
  assumes "list_all P (fst (run_conversion env))"
    and "\<And>parts. P (Print parts)" and "\<And>c. P (Sh c)" and "\<And>err. P (Traceback err)"
    and "\<And>ms. P (Import ms)" and "\<And>f. P (Write_file f)" and "\<And>cmd. P (Subprocess_run cmd)"
  shows "list_all P (fst (colab_script env))"
proof -
  have sh: "list_all P (fst (runner_sh env))"
    using assms(1-4) by (rule list_all_runner_sh)
  have "list_all P (fst (colab_script_main env))"
    using sh assms(2,5,6,7)
    by (cases "runner_sh env")
      (simp add: colab_script_main_def except_CalledProcessError_def subprocess_run_check_def
        py_bind_def emit_def print_def call_unit_def
        split: option.splits sum.splits py_error.splits prod.splits)
  then show ?thesis
    unfolding colab_script_def using assms(4) by (rule list_all_python_process)
qed

lemma python_process_alt:
  "python_process m =
     (case snd m of
        Inr _ \<Rightarrow> (fst m, 0)
      | Inl (SystemExit n) \<Rightarrow> (fst m, n mod 256)
      | Inl err \<Rightarrow> (fst m @ [Traceback err], 1))"
  by (cases m) (simp add: python_process_def split: sum.splits py_error.splits)

text \<open>No OpenUnmix export raises \<open>SystemExit\<close>.\<close>

lemma convert_openunmix_main_no_exit:
  "snd (convert_openunmix_main env) \<noteq> Inl (SystemExit n)"
  by (auto simp add: convert_openunmix_main_def convert_openunmix_def py_simps
      split: sum.split option.split)

lemma colab_openunmix_main_no_exit:
  "snd (colab_openunmix_main env) \<noteq> Inl (SystemExit n)"
  by (auto simp add: colab_openunmix_main_def colab_convert_openunmix_def
      subprocess_check_call_def py_simps split: sum.split option.split)

lemma convert_spectral_main_no_exit:
  "snd (convert_spectral_main env) \<noteq> Inl (SystemExit n)"
  by (auto simp add: convert_spectral_main_def convert_spectral_def py_simps
      split: sum.split option.split)

text \<open>The invoking process of the Demucs export, once the child has been started.\<close>

lemma colab_script_started:
  assumes "import_modules env [''subprocess''] = None"
    and "write_file env ''runner.sh'' = None"
    and "spawn env [''bash'', ''runner.sh''] = None"
  shows "colab_script env =
     ([Import [''subprocess''], Write_file ''runner.sh'',
       Print [Lit ''Starting isolated shell execution...''],
       Print [Lit ''----------------------------------------------------------------''],
       Subprocess_run [''bash'', ''runner.sh'']]
      @ fst (runner_sh env)
      @ (if snd (runner_sh env) \<noteq> 0
         then [Print [Lit ''Script failed with code '', Fmt_int (snd (runner_sh env))]]
         else []),
      0)"
  using assms
  by (cases "runner_sh env")
    (simp add: colab_script_def colab_script_main_def python_process_def
      except_CalledProcessError_def subprocess_run_check_def
      py_bind_def emit_def print_def call_unit_def)

text \<open>The version check of \<open>run_conversion.py\<close> when the version string starts with 2.\<close>

lemma run_conversion_numpy2:
  assumes "startswith (numpy_version env) ''2''"
  shows "snd (python_process (run_conversion env)) = 1"
    and "list_all (\<lambda>e. \<not> model_work e) (fst (python_process (run_conversion env)))"
  using assms
  by (simp_all add: run_conversion_def python_process_alt py_simps split: option.split)

lemma run_conversion_effects:
  "list_all
     (\<lambda>e. (\<forall>d s k. e \<noteq> Apply_model d s k) \<and>
          (\<forall>w. e \<noteq> Eval (Wrapped w)) \<and>
          (\<forall>x s k. e = Jit_trace x s k \<longrightarrow>
             (\<exists>bag m. get_model env ''htdemucs'' = Inr bag \<and>
                (select_model bag :: ('g, 'p, demucs) py) = ([], Inr m) \<and>
                x = Model m \<and> s = [1, 2, 343980] \<and> k = None)) \<and>
          (\<forall>c. e = Ct_convert c \<longrightarrow>
             (\<exists>bag m. get_model env ''htdemucs'' = Inr bag \<and>
                (select_model bag :: ('g, 'p, demucs) py) = ([], Inr m) \<and>
                jit_trace env (Model m) [1, 2, 343980] None = Inr (traced c))))
     (fst (run_conversion (env :: ('g, 'p) env)))"
  by (auto simp add: run_conversion_def select_model_def py_simps
      split: sum.split option.split list.split)

lemma run_conversion_evals:
  "length (eval_calls (fst (run_conversion env))) \<le> 1"
  by (auto simp add: run_conversion_def select_model_def py_simps eval_calls_def
      split: sum.split option.split list.split)

lemma runner_sh_demo:
  "snd (runner_sh demo_env) = 0 \<and>
   trace_calls (fst (runner_sh demo_env)) =
     [(Model (Demucs ''htdemucs.0'' None), [1, 2, 343980], None)] \<and>
   convert_calls (fst (runner_sh demo_env)) =
     [\<lparr>traced = 7,
       inputs = [\<lparr>name = ''audio'', shape = [Fixed 1, Fixed 2, Fixed 343980]\<rparr>],
       convert_to = ''mlprogram'', compute_precision = FLOAT16,
       minimum_deployment_target = macOS13\<rparr>]"
  by (simp add: runner_sh_def runner_steps_def exec_step_def python_process_alt
      run_conversion_def select_model_def startswith_def py_simps trace_calls_def
      convert_calls_def demo_env_def demo_bag_def)

lemma runner_sh_failing:
  "runner_sh failing_env =
     ([Print [Lit ''Setting up isolated environment...''],
       Sh ''python3 --version'', Sh ''python3 -m venv venv'', Sh ''source venv/bin/activate'',
       Print [Lit ''Installing clean dependencies...''],
       Sh ''pip install --upgrade pip'', Sh ''pip install numpy<2'',
       Sh ''pip install torch==2.4.0 torchaudio==2.4.0 --index-url https://download.pytorch.org/whl/cpu'',
       Sh ''pip install demucs coremltools'',
       Print [Lit ''Environment Ready.''], Sh ''cat <<EOF > run_conversion.py'',
       Print [Lit ''Running conversion script...''],
       Sh ''python run_conversion.py'',
       Import [''torch'', ''torch.nn'', ''demucs.pretrained'', ''demucs.apply'',
               ''coremltools'', ''shutil'', ''numpy'', ''sys''],
       Print [Lit ''Numpy Version inside venv: '', Fmt_str ''2.0.1''],
       Print [Lit ''Error: Numpy 2.x still present!'']],
      1)"
  by (simp add: runner_sh_def runner_steps_def exec_step_def python_process_alt
      run_conversion_def startswith_def py_simps failing_env_def demo_env_def)

text \<open>
  The exit status of a script that never raises \<open>SystemExit\<close>: 0 when it returns, and
  otherwise 1 after the traceback of the exception that ended it.
\<close>

lemma python_process_status:
  assumes "\<forall>n. snd m \<noteq> Inl (SystemExit n)"
  shows "(snd (python_process m) = 0) = (\<exists>v. snd m = Inr v)"
    and "snd (python_process m) \<noteq> 0 \<longrightarrow>
         snd (python_process m) = 1 \<and>
         (\<exists>err. snd m = Inl err \<and> last (fst (python_process m)) = Traceback err)"
  using assms by (auto simp add: python_process_alt split: sum.splits py_error.splits)

text \<open>Each OpenUnmix export returns exactly when every one of its stages succeeds.\<close>

lemma convert_openunmix_main_ok:
  "(snd (convert_openunmix_main env) = Inr ()) =
   (import_modules env [''torch'', ''openunmix'', ''coremltools'', ''shutil'', ''os''] = None \<and>
    (\<exists>sep g p.
       load_separator env (load_kwargs ''model_str_or_path'') = Inr sep \<and>
       jit_trace env (Sep sep) [1, 2, 132300] (Some False) = Inr g \<and>
       ct_convert env
         \<lparr>traced = g,
          inputs = [\<lparr>name = ''audio'', shape = [Fixed 1, Fixed 2, Fixed 132300]\<rparr>],
          convert_to = ''mlprogram'', compute_precision = FLOAT16,
          minimum_deployment_target = macOS13\<rparr> = Inr p \<and>
       save env p ''OpenUnmix.mlpackage'' = None))"
  by (auto simp add: convert_openunmix_main_def convert_openunmix_def py_simps
      split: sum.split option.split)

lemma colab_openunmix_main_ok:
  "(snd (colab_openunmix_main env) = Inr ()) =
   (import_modules env [''subprocess'', ''sys''] = None \<and>
    check_call env [sys_executable env, ''-m'', ''pip'', ''install'', ''openunmix'', ''torch'',
                    ''torchaudio'', ''coremltools'', ''numpy<2''] = 0 \<and>
    import_modules env [''torch'', ''openunmix'', ''coremltools'', ''shutil''] = None \<and>
    (\<exists>sep g p.
       load_separator env (load_kwargs ''model_str'') = Inr sep \<and>
       jit_trace env (Sep sep) [1, 2, 441000] None = Inr g \<and>
       ct_convert env
         \<lparr>traced = g,
          inputs = [\<lparr>name = ''audio'', shape = [Fixed 1, Fixed 2, Fixed 441000]\<rparr>],
          convert_to = ''mlprogram'', compute_precision = FLOAT16,
          minimum_deployment_target = macOS13\<rparr> = Inr p \<and>
       save env p ''OpenUnmix.mlpackage'' = None \<and>
       make_archive env ''OpenUnmix'' ''zip'' ''OpenUnmix.mlpackage'' = None))"
  by (auto simp add: colab_openunmix_main_def colab_convert_openunmix_def
      subprocess_check_call_def py_simps split: sum.split option.split)

lemma convert_spectral_main_ok:
  "(snd (convert_spectral_main env) = Inr ()) =
   (import_modules env [''torch'', ''openunmix.utils'', ''coremltools'', ''shutil'', ''os''] = None \<and>
    (\<exists>sep vocals_model g p.
       load_separator env (load_kwargs ''model_str_or_path'') = Inr sep \<and>
       map_of (target_models sep) ''vocals'' = Some vocals_model \<and>
       jit_trace env (Target vocals_model) [1, 2, 2049, 100] None = Inr g \<and>
       ct_convert env
         \<lparr>traced = g,
          inputs = [\<lparr>name = ''magnitude_spectrogram'',
                     shape = [Fixed 1, Fixed 2, Fixed 2049, RangeDim 10 5000 100]\<rparr>],
          convert_to = ''mlprogram'', compute_precision = FLOAT16,
          minimum_deployment_target = macOS13\<rparr> = Inr p \<and>
       save env p ''OpenUnmixSpectrogram.mlpackage'' = None \<and>
       make_archive env ''OpenUnmixSpectrogram'' ''zip'' ''OpenUnmixSpectrogram.mlpackage'' = None))"
  by (auto simp add: convert_spectral_main_def convert_spectral_def py_simps
      split: sum.split option.split)

text \<open>The trace calls of the two whole-waveform scripts, as processes.\<close>

lemma trace_calls_python_process:
  "trace_calls (fst (python_process m)) = trace_calls (fst m)"
  by (simp add: python_process_alt trace_calls_def split: sum.split py_error.split)

lemma colab_openunmix_script_traces:
  "trace_calls (fst (colab_openunmix_script env)) = [] \<or>
   (\<exists>sep. trace_calls (fst (colab_openunmix_script env)) = [(Sep sep, [1, 2, 441000], None)])"
proof -
  have "trace_calls (fst (colab_openunmix_main env)) = [] \<or>
      trace_calls (fst (colab_openunmix_main env)) =
        trace_calls (fst (colab_convert_openunmix env))"
    by (simp add: colab_openunmix_main_def subprocess_check_call_def py_simps trace_calls_def
        split: option.split)
  then show ?thesis
    using colab_convert_openunmix_traces [of env]
    by (auto simp add: colab_openunmix_script_def trace_calls_python_process)
qed

lemma colab_openunmix_script_strict:
  "colab_openunmix_script strict_env =
     ([Import [''subprocess'', ''sys''],
       Print [Lit ''INSTALLING OPENUNMIX...''],
       Check_call [''/usr/bin/python3'', ''-m'', ''pip'', ''install'', ''openunmix'', ''torch'',
                   ''torchaudio'', ''coremltools'', ''numpy<2''],
       Import [''torch'', ''openunmix'', ''coremltools'', ''shutil''],
       Print [Lit ''Loading OpenUnmix (umxhq)...''],
       Load_separator (load_kwargs ''model_str''),
       Traceback (Exception ''TypeError: load_separator() got an unexpected keyword argument'')],
      1)"
  by (simp add: colab_openunmix_script_def colab_openunmix_main_def colab_convert_openunmix_def
      subprocess_check_call_def python_process_alt py_simps strict_env_def demo_env_def
      load_kwargs_def)

lemma colab_openunmix_script_no_version_check:
  "colab_openunmix_script (env\<lparr>numpy_version := v\<rparr>) = colab_openunmix_script env"
  by (simp add: colab_openunmix_script_def colab_openunmix_main_def colab_convert_openunmix_def
      subprocess_check_call_def)

lemma convert_openunmix_script_strict:
  "snd (convert_openunmix_script strict_env) = 0 \<and>
   trace_calls (fst (convert_openunmix_script strict_env)) =
     [(Sep demo_separator, [1, 2, 132300], Some False)] \<and>
   convert_calls (fst (convert_openunmix_script strict_env)) =
     [\<lparr>traced = 7,
       inputs = [\<lparr>name = ''audio'', shape = [Fixed 1, Fixed 2, Fixed 132300]\<rparr>],
       convert_to = ''mlprogram'', compute_precision = FLOAT16,
       minimum_deployment_target = macOS13\<rparr>]"
  by (simp add: convert_openunmix_script_def convert_openunmix_main_def convert_openunmix_def
      python_process_alt py_simps trace_calls_def convert_calls_def strict_env_def demo_env_def
      load_kwargs_def)

lemma colab_openunmix_script_demo:
  "snd (colab_openunmix_script demo_env) = 0 \<and>
   trace_calls (fst (colab_openunmix_script demo_env)) =
     [(Sep demo_separator, [1, 2, 441000], None)] \<and>
   length (convert_calls (fst (colab_openunmix_script demo_env))) = 1"
  by (simp add: colab_openunmix_script_def colab_openunmix_main_def colab_convert_openunmix_def
      subprocess_check_call_def python_process_alt py_simps trace_calls_def convert_calls_def
      demo_env_def)

section \<open>The claims\<close>

text \<open>
  C1. In the spectral sub-model export, every conversion call declares exactly one
  input tensor, named \<open>magnitude_spectrogram\<close>, of shape \<open>(1, 2, 2049, T)\<close>: the batch,
  channel and frequency-bin axes are fixed, and the time-frame axis \<open>T\<close> is a range with
  lower bound 10, upper bound 5000 and default 100. A run that succeeds makes exactly
  one conversion call, so the package it saves has that declaration.
\<close>

theorem C1_spectral_input_declaration:
  "(\<forall>c \<in> set (convert_calls (fst (convert_spectral env))).
      inputs c = [\<lparr>name = ''magnitude_spectrogram'',
                   shape = [Fixed 1, Fixed 2, Fixed 2049, RangeDim 10 5000 100]\<rparr>]) \<and>
   (snd (convert_spectral env) = Inr () \<longrightarrow>
      length (convert_calls (fst (convert_spectral env))) = 1)"
  using convert_spectral_calls [of env] convert_spectral_success [of env] by auto

theorem C1_spectral_input_declaration_witness:
  "snd (convert_spectral demo_env) = Inr () \<and>
   map inputs (convert_calls (fst (convert_spectral demo_env))) =
     [[\<lparr>name = ''magnitude_spectrogram'',
        shape = [Fixed 1, Fixed 2, Fixed 2049, RangeDim 10 5000 100]\<rparr>]] \<and>
   map (\<lambda>c. map (\<lambda>t. (lower_bound (shape t ! 3), upper_bound (shape t ! 3),
                       range_default (shape t ! 3))) (inputs c))
     (convert_calls (fst (convert_spectral demo_env))) = [[(10, 5000, 100)]]"
proof -
  have ok: "snd (convert_spectral demo_env) = Inr ()"
    by (simp add: convert_spectral_demo)
  from C1_spectral_input_declaration [of demo_env] ok
  have len: "length (convert_calls (fst (convert_spectral demo_env))) = 1"
    and all: "\<forall>c \<in> set (convert_calls (fst (convert_spectral demo_env))).
      inputs c = [\<lparr>name = ''magnitude_spectrogram'',
                   shape = [Fixed 1, Fixed 2, Fixed 2049, RangeDim 10 5000 100]\<rparr>]"
    by blast+
  from len obtain c where c: "convert_calls (fst (convert_spectral demo_env)) = [c]"
    by (cases "convert_calls (fst (convert_spectral demo_env))") auto
  with all ok show ?thesis by simp
qed

text \<open>
  C2. In the Colab whole-waveform export the example input has shape
  \<open>(1, 2, 441000)\<close>, that is \<open>44100 * 10\<close> samples, and every conversion call declares
  exactly one input tensor, named \<open>audio\<close>, of that fixed shape. A run that succeeds
  makes exactly one conversion call.
\<close>

theorem C2_colab_waveform_input_declaration:
  "(\<forall>t \<in> set (trace_calls (fst (colab_convert_openunmix env))).
      fst (snd t) = [1, 2, 441000] \<and> fst (snd t) = [1, 2, 44100 * 10]) \<and>
   (\<forall>c \<in> set (convert_calls (fst (colab_convert_openunmix env))).
      inputs c = [\<lparr>name = ''audio'', shape = [Fixed 1, Fixed 2, Fixed 441000]\<rparr>]) \<and>
   (snd (colab_convert_openunmix env) = Inr () \<longrightarrow>
      length (convert_calls (fst (colab_convert_openunmix env))) = 1)"
  using colab_convert_openunmix_calls [of env] colab_convert_openunmix_success [of env]
    colab_convert_openunmix_traces [of env]
  by auto

theorem C2_colab_waveform_input_declaration_witness:
  "snd (colab_convert_openunmix demo_env) = Inr () \<and>
   map (\<lambda>t. fst (snd t)) (trace_calls (fst (colab_convert_openunmix demo_env))) =
     [[1, 2, 441000]] \<and>
   map inputs (convert_calls (fst (colab_convert_openunmix demo_env))) =
     [[\<lparr>name = ''audio'', shape = [Fixed 1, Fixed 2, Fixed 441000]\<rparr>]]"
proof -
  have ok: "snd (colab_convert_openunmix demo_env) = Inr ()"
    by (simp add: colab_convert_openunmix_demo)
  have tr: "trace_calls (fst (colab_convert_openunmix demo_env)) =
     [(Sep demo_separator, [1, 2, 441000], None)]"
    by (simp add: colab_convert_openunmix_demo)
  from C2_colab_waveform_input_declaration [of demo_env] ok
  have len: "length (convert_calls (fst (colab_convert_openunmix demo_env))) = 1"
    and all: "\<forall>c \<in> set (convert_calls (fst (colab_convert_openunmix demo_env))).
      inputs c = [\<lparr>name = ''audio'', shape = [Fixed 1, Fixed 2, Fixed 441000]\<rparr>]"
    by blast+
  from len obtain c where c: "convert_calls (fst (colab_convert_openunmix demo_env)) = [c]"
    by (cases "convert_calls (fst (colab_convert_openunmix demo_env))") auto
  with all ok tr show ?thesis by simp
qed


text \<open>
  C10. The standalone whole-waveform export traces with an example input of shape
  \<open>(1, 2, 132300)\<close>, that is \<open>44100 * 3\<close> samples, and every conversion call declares
  exactly one input tensor, named \<open>audio\<close>, of that fixed shape; the declaration
  differs from the one of every conversion call of the Colab variant, whose time
  length is 441000.
\<close>

theorem C10_standalone_waveform_input_declaration:
  "(\<forall>t \<in> set (trace_calls (fst (convert_openunmix env))).
      fst (snd t) = [1, 2, 132300] \<and> fst (snd t) = [1, 2, 44100 * 3]) \<and>
   (\<forall>c \<in> set (convert_calls (fst (convert_openunmix env))).
      inputs c = [\<lparr>name = ''audio'', shape = [Fixed 1, Fixed 2, Fixed 132300]\<rparr>] \<and>
      (\<forall>c' \<in> set (convert_calls (fst (colab_convert_openunmix env'))).
         inputs c' = [\<lparr>name = ''audio'', shape = [Fixed 1, Fixed 2, Fixed 441000]\<rparr>] \<and>
         inputs c \<noteq> inputs c')) \<and>
   (snd (convert_openunmix env) = Inr () \<longrightarrow>
      length (convert_calls (fst (convert_openunmix env))) = 1)"
  using convert_openunmix_calls [of env] convert_openunmix_success [of env]
    convert_openunmix_traces [of env] colab_convert_openunmix_calls [of env']
  by auto

theorem C10_standalone_waveform_input_declaration_witness:
  "snd (convert_openunmix demo_env) = Inr () \<and>
   map (\<lambda>t. fst (snd t)) (trace_calls (fst (convert_openunmix demo_env))) =
     [[1, 2, 132300]] \<and>
   map inputs (convert_calls (fst (convert_openunmix demo_env))) =
     [[\<lparr>name = ''audio'', shape = [Fixed 1, Fixed 2, Fixed 132300]\<rparr>]] \<and>
   map inputs (convert_calls (fst (colab_convert_openunmix demo_env))) =
     [[\<lparr>name = ''audio'', shape = [Fixed 1, Fixed 2, Fixed 441000]\<rparr>]]"
proof -
  have ok: "snd (convert_openunmix demo_env) = Inr ()"
    by (simp add: convert_openunmix_demo)
  have tr: "trace_calls (fst (convert_openunmix demo_env)) =
     [(Sep demo_separator, [1, 2, 132300], Some False)]"
    by (simp add: convert_openunmix_demo)
  have colab: "map inputs (convert_calls (fst (colab_convert_openunmix demo_env))) =
     [[\<lparr>name = ''audio'', shape = [Fixed 1, Fixed 2, Fixed 441000]\<rparr>]]"
    by (simp add: colab_convert_openunmix_demo)
  from C10_standalone_waveform_input_declaration [of demo_env demo_env] ok
  have len: "length (convert_calls (fst (convert_openunmix demo_env))) = 1"
    and all: "\<forall>c \<in> set (convert_calls (fst (convert_openunmix demo_env))).
      inputs c = [\<lparr>name = ''audio'', shape = [Fixed 1, Fixed 2, Fixed 132300]\<rparr>]"
    by blast+
  from len obtain c where c: "convert_calls (fst (convert_openunmix demo_env)) = [c]"
    by (cases "convert_calls (fst (convert_openunmix demo_env))") auto
  with all ok tr colab show ?thesis by simp
qed

text \<open>
  C6. Every conversion call of every export (the standalone and the Colab
  whole-waveform OpenUnmix exports, the spectral vocals sub-model export, and the
  Demucs export, also seen from the invoking Colab process) asks for half precision:
  \<open>compute_precision\<close> is \<open>FLOAT16\<close>.
\<close>

theorem C6_half_precision:
  "(\<forall>c \<in> set (convert_calls (fst (convert_openunmix env))). compute_precision c = FLOAT16) \<and>
   (\<forall>c \<in> set (convert_calls (fst (colab_convert_openunmix env))).
      compute_precision c = FLOAT16) \<and>
   (\<forall>c \<in> set (convert_calls (fst (convert_spectral env))). compute_precision c = FLOAT16) \<and>
   (\<forall>c \<in> set (convert_calls (fst (run_conversion env))). compute_precision c = FLOAT16) \<and>
   (\<forall>c \<in> set (convert_calls (fst (colab_script env))). compute_precision c = FLOAT16)"
proof -
  have demucs: "\<forall>c \<in> set (convert_calls (fst (run_conversion env))).
      compute_precision c = FLOAT16"
    using run_conversion_calls [of env] by auto
  then have "list_all (\<lambda>e. \<forall>c. e = Ct_convert c \<longrightarrow> compute_precision c = FLOAT16)
      (fst (run_conversion env))"
    by (auto simp add: list_all_iff set_convert_calls)
  then have "list_all (\<lambda>e. \<forall>c. e = Ct_convert c \<longrightarrow> compute_precision c = FLOAT16)
      (fst (colab_script env))"
    by (rule list_all_colab_script) simp_all
  then have "\<forall>c \<in> set (convert_calls (fst (colab_script env))). compute_precision c = FLOAT16"
    by (auto simp add: list_all_iff set_convert_calls)
  with demucs show ?thesis
    using convert_openunmix_calls [of env] colab_convert_openunmix_calls [of env]
      convert_spectral_calls [of env]
    by auto
qed

theorem C6_half_precision_witness:
  "map compute_precision (convert_calls (fst (convert_openunmix demo_env))) = [FLOAT16] \<and>
   map compute_precision (convert_calls (fst (colab_convert_openunmix demo_env))) = [FLOAT16] \<and>
   map compute_precision (convert_calls (fst (convert_spectral demo_env))) = [FLOAT16] \<and>
   map compute_precision (convert_calls (fst (run_conversion demo_env))) = [FLOAT16]"
proof -
  have a: "length (convert_calls (fst (convert_openunmix demo_env))) = 1"
    by (simp add: convert_openunmix_demo)
  have b: "length (convert_calls (fst (colab_convert_openunmix demo_env))) = 1"
    by (simp add: colab_convert_openunmix_demo)
  have c: "length (convert_calls (fst (convert_spectral demo_env))) = 1"
    by (simp add: convert_spectral_demo)
  have d: "length (convert_calls (fst (run_conversion demo_env))) = 1"
    by (simp add: run_conversion_demo)
  have one: "\<And>(xs :: nat convert_call list). length xs = 1 \<Longrightarrow>
      \<forall>x \<in> set xs. compute_precision x = FLOAT16 \<Longrightarrow> map compute_precision xs = [FLOAT16]"
  proof -
    fix xs :: "nat convert_call list"
    assume "length xs = 1" and all: "\<forall>x \<in> set xs. compute_precision x = FLOAT16"
    then obtain x where "xs = [x]" by (cases xs) auto
    with all show "map compute_precision xs = [FLOAT16]" by simp
  qed
  from C6_half_precision [of demo_env] a b c d show ?thesis
    by (simp add: one)
qed

text \<open>
  C7. The model selection takes the first constituent model of a bag (a loaded model
  with a non-empty \<open>models\<close> attribute) and the loaded model itself when it has no
  such attribute; the selected model is the one the export puts in evaluation mode and
  traces.
\<close>

theorem C7_first_model_of_bag:
  "(models bag_model = Some (m # ms) \<longrightarrow>
      (select_model bag_model :: ('g, 'p, demucs) py) = ([], Inr m)) \<and>
   (models single = None \<longrightarrow>
      (select_model single :: ('g, 'p, demucs) py) = ([], Inr single)) \<and>
   (import_modules env [''torch'', ''torch.nn'', ''demucs.pretrained'', ''demucs.apply'',
        ''coremltools'', ''shutil'', ''numpy'', ''sys''] = None \<and>
    \<not> startswith (numpy_version env) ''2'' \<and>
    get_model env ''htdemucs'' = Inr bag_model \<and>
    models bag_model = Some (m # ms) \<longrightarrow>
      Eval (Model m) \<in> set (fst (run_conversion (env :: ('g, 'p) env))) \<and>
      trace_calls (fst (run_conversion env)) = [(Model m, [1, 2, 343980], None)])"
  by (simp add: select_model_def run_conversion_def py_simps trace_calls_def
      split: sum.split option.split)

theorem C7_first_model_of_bag_witness:
  "models demo_bag = Some [Demucs ''htdemucs.0'' None, Demucs ''htdemucs.1'' None] \<and>
   (select_model demo_bag :: (nat, nat, demucs) py) = ([], Inr (Demucs ''htdemucs.0'' None)) \<and>
   (select_model (Demucs ''htdemucs.0'' None) :: (nat, nat, demucs) py) =
     ([], Inr (Demucs ''htdemucs.0'' None)) \<and>
   trace_calls (fst (run_conversion demo_env)) =
     [(Model (Demucs ''htdemucs.0'' None), [1, 2, 343980], None)]"
  using C7_first_model_of_bag [of demo_bag "Demucs ''htdemucs.0'' None"
      "[Demucs ''htdemucs.1'' None]" "Demucs ''htdemucs.0'' None" demo_env]
  by (simp add: demo_bag_def demo_env_def startswith_def)


text \<open>
  C8. The probe tries its two candidate shapes in turn on the sub-model. For each it
  calls the sub-model; when the call returns it prints the shape and the output's
  shape, when the call raises it catches the exception and prints the shape and the
  exception. Whatever the first candidate does, the second is tried, and the probe ends
  normally: the process exits with status 0 and no traceback.
\<close>

theorem C8_probe_reports_and_continues:
  "inspect_probe env vocals =
     ([Randn [1, 100, 4098],
       Print [Lit ''Attempting to infer shape...''],
       Randn [1, 2, 2049, 100],
       Forward (Target vocals) [1, 2, 2049, 100],
       Print (case forward env (Target vocals) [1, 2, 2049, 100] of
                Inr out \<Rightarrow> [Lit ''Success with (1, 2, 2049, 100). Output: '', Fmt_shape out]
              | Inl msg \<Rightarrow> [Lit ''Failed with (1, 2, 2049, 100): '', Fmt_exc (Exception msg)]),
       Randn [1, 100, 4098],
       Forward (Target vocals) [1, 100, 4098],
       Print (case forward env (Target vocals) [1, 100, 4098] of
                Inr out \<Rightarrow> [Lit ''Success with (1, 100, 4098): '', Fmt_shape out]
              | Inl msg \<Rightarrow> [Lit ''Failed with (1, 100, 4098): '', Fmt_exc (Exception msg)])],
      Inr ()) \<and>
   python_process (inspect_probe env vocals) = (fst (inspect_probe env vocals), 0)"
proof -
  have "inspect_probe env vocals =
     ([Randn [1, 100, 4098],
       Print [Lit ''Attempting to infer shape...''],
       Randn [1, 2, 2049, 100],
       Forward (Target vocals) [1, 2, 2049, 100],
       Print (case forward env (Target vocals) [1, 2, 2049, 100] of
                Inr out \<Rightarrow> [Lit ''Success with (1, 2, 2049, 100). Output: '', Fmt_shape out]
              | Inl msg \<Rightarrow> [Lit ''Failed with (1, 2, 2049, 100): '', Fmt_exc (Exception msg)]),
       Randn [1, 100, 4098],
       Forward (Target vocals) [1, 100, 4098],
       Print (case forward env (Target vocals) [1, 100, 4098] of
                Inr out \<Rightarrow> [Lit ''Success with (1, 100, 4098): '', Fmt_shape out]
              | Inl msg \<Rightarrow> [Lit ''Failed with (1, 100, 4098): '', Fmt_exc (Exception msg)])],
      Inr ())"
    by (cases "forward env (Target vocals) [1, 2, 2049, 100]";
        cases "forward env (Target vocals) [1, 100, 4098]")
      (simp_all add: inspect_probe_def except_Exception_def py_bind_def emit_def print_def
        call_def)
  then show ?thesis by (simp add: python_process_def)
qed

theorem C8_probe_reports_and_continues_witness:
  "forward demo_env (Target ''umxhq.vocals'') [1, 2, 2049, 100] = Inr [1, 2, 2049, 100] \<and>
   forward demo_env (Target ''umxhq.vocals'') [1, 100, 4098] = Inl ''size mismatch'' \<and>
   inspect_probe demo_env ''umxhq.vocals'' =
     ([Randn [1, 100, 4098],
       Print [Lit ''Attempting to infer shape...''],
       Randn [1, 2, 2049, 100],
       Forward (Target ''umxhq.vocals'') [1, 2, 2049, 100],
       Print [Lit ''Success with (1, 2, 2049, 100). Output: '', Fmt_shape [1, 2, 2049, 100]],
       Randn [1, 100, 4098],
       Forward (Target ''umxhq.vocals'') [1, 100, 4098],
       Print [Lit ''Failed with (1, 100, 4098): '', Fmt_exc (Exception ''size mismatch'')]],
      Inr ())"
  using C8_probe_reports_and_continues [of demo_env "''umxhq.vocals''"]
  by (simp add: demo_env_def)

text \<open>
  C9. In the Demucs export the module that is traced is the selected model itself (the
  first constituent of the bag), on the example shape \<open>(1, 2, 343980)\<close>, and the graph
  given to the converter is the result of that trace. The class \<open>DemucsWrapper\<close>, whose
  constructor would put the model in evaluation mode once more and whose forward pass
  would run \<open>apply_model\<close> with \<open>shifts=0, split=True, overlap=0.25\<close>, takes no part
  in any run: no wrapped module is evaluated or traced, \<open>apply_model\<close> is never called,
  and a model is put in evaluation mode at most once.
\<close>

theorem C9_bare_model_is_traced:
  "list_all
     (\<lambda>e. (\<forall>d s k. e \<noteq> Apply_model d s k) \<and>
          (\<forall>w. e \<noteq> Eval (Wrapped w)) \<and>
          (\<forall>x s k. e = Jit_trace x s k \<longrightarrow>
             (\<exists>bag m. get_model env ''htdemucs'' = Inr bag \<and>
                (select_model bag :: ('g, 'p, demucs) py) = ([], Inr m) \<and>
                x = Model m \<and> s = [1, 2, 343980] \<and> k = None)) \<and>
          (\<forall>c. e = Ct_convert c \<longrightarrow>
             (\<exists>bag m. get_model env ''htdemucs'' = Inr bag \<and>
                (select_model bag :: ('g, 'p, demucs) py) = ([], Inr m) \<and>
                jit_trace env (Model m) [1, 2, 343980] None = Inr (traced c))))
     (fst (colab_script (env :: ('g, 'p) env))) \<and>
   length (eval_calls (fst (run_conversion env))) \<le> 1 \<and>
   fst (DemucsWrapper_init m0 :: ('g, 'p, demucs_wrapper) py) = [Eval (Model m0)] \<and>
   fst (DemucsWrapper_forward env (DemucsWrapper m0) x0) =
     [Apply_model m0 x0 [(''shifts'', PyInt 0), (''split'', PyBool True),
                         (''overlap'', PyFloat (1 / 4)), (''progress'', PyBool False)]]"
proof -
  have "list_all
     (\<lambda>e. (\<forall>d s k. e \<noteq> Apply_model d s k) \<and>
          (\<forall>w. e \<noteq> Eval (Wrapped w)) \<and>
          (\<forall>x s k. e = Jit_trace x s k \<longrightarrow>
             (\<exists>bag m. get_model env ''htdemucs'' = Inr bag \<and>
                (select_model bag :: ('g, 'p, demucs) py) = ([], Inr m) \<and>
                x = Model m \<and> s = [1, 2, 343980] \<and> k = None)) \<and>
          (\<forall>c. e = Ct_convert c \<longrightarrow>
             (\<exists>bag m. get_model env ''htdemucs'' = Inr bag \<and>
                (select_model bag :: ('g, 'p, demucs) py) = ([], Inr m) \<and>
                jit_trace env (Model m) [1, 2, 343980] None = Inr (traced c))))
     (fst (colab_script env))"
    using run_conversion_effects [of env] by (rule list_all_colab_script) simp_all
  then show ?thesis
    using run_conversion_evals [of env]
    by (simp add: DemucsWrapper_init_def DemucsWrapper_forward_def py_simps)
qed

theorem C9_bare_model_is_traced_witness:
  "Jit_trace (Model (Demucs ''htdemucs.0'' None)) [1, 2, 343980] None
     \<in> set (fst (colab_script demo_env)) \<and>
   get_model demo_env ''htdemucs'' = Inr demo_bag \<and>
   (select_model demo_bag :: (nat, nat, demucs) py) = ([], Inr (Demucs ''htdemucs.0'' None)) \<and>
   eval_calls (fst (run_conversion demo_env)) = [Model (Demucs ''htdemucs.0'' None)]"
proof -
  have "import_modules demo_env [''subprocess''] = None"
    and "write_file demo_env ''runner.sh'' = None"
    and "spawn demo_env [''bash'', ''runner.sh''] = None"
    by (simp_all add: demo_env_def)
  then have run: "set (fst (runner_sh demo_env)) \<subseteq> set (fst (colab_script demo_env))"
    by (auto simp add: colab_script_started)
  have "(Model (Demucs ''htdemucs.0'' None), [1, 2, 343980], None)
      \<in> set (trace_calls (fst (runner_sh demo_env)))"
    by (simp add: runner_sh_demo)
  then have "Jit_trace (Model (Demucs ''htdemucs.0'' None)) [1, 2, 343980] None
      \<in> set (fst (runner_sh demo_env))"
    by (simp add: set_trace_calls)
  with run have mem: "Jit_trace (Model (Demucs ''htdemucs.0'' None)) [1, 2, 343980] None
      \<in> set (fst (colab_script demo_env))"
    by blast
  have "\<exists>bag m. get_model demo_env ''htdemucs'' = Inr bag \<and>
      (select_model bag :: (nat, nat, demucs) py) = ([], Inr m) \<and>
      Model (Demucs ''htdemucs.0'' None) = Model m \<and>
      [1, 2, 343980] = [1, 2, 343980 :: int] \<and> (None :: bool option) = None"
    by (rule C9_bare_model_is_traced [of demo_env "Demucs ''htdemucs.0'' None" "[1, 2, 343980]",
          THEN conjunct1, unfolded list_all_iff, rule_format, OF mem,
          THEN conjunct2, THEN conjunct2, THEN conjunct1, rule_format, OF refl])
  moreover have "get_model demo_env ''htdemucs'' = Inr demo_bag"
    by (simp add: demo_env_def)
  moreover have "eval_calls (fst (run_conversion demo_env)) = [Model (Demucs ''htdemucs.0'' None)]"
    by (simp add: run_conversion_def select_model_def startswith_def py_simps eval_calls_def
        demo_env_def demo_bag_def)
  ultimately show ?thesis using mem by auto
qed


text \<open>
  C5 (as the code has it). The standalone whole-waveform export passes
  \<open>check_trace=False\<close> to the trace capture and converts the graph it gets. The Colab
  whole-waveform export never invokes the trace capture with the validation disabled:
  in every environment it makes either no trace call or one trace call without the
  keyword, which leaves the validation enabled. With a loader that has the library's
  signature, its call \<open>load_separator(model_str=...)\<close> raises, so the run ends with
  status 1 before any trace or conversion; with a loader that accepts the call, the
  trace is captured with the validation enabled.
\<close>

theorem C5_colab_trace_validation_enabled:
  "(trace_calls (fst (colab_openunmix_script env)) = [] \<or>
    (\<exists>sep. trace_calls (fst (colab_openunmix_script env)) = [(Sep sep, [1, 2, 441000], None)])) \<and>
   validation_enabled None \<and>
   map_of (load_kwargs ''model_str'') ''niter'' = Some (PyInt 1) \<and>
   colab_openunmix_script strict_env =
     ([Import [''subprocess'', ''sys''],
       Print [Lit ''INSTALLING OPENUNMIX...''],
       Check_call [''/usr/bin/python3'', ''-m'', ''pip'', ''install'', ''openunmix'', ''torch'',
                   ''torchaudio'', ''coremltools'', ''numpy<2''],
       Import [''torch'', ''openunmix'', ''coremltools'', ''shutil''],
       Print [Lit ''Loading OpenUnmix (umxhq)...''],
       Load_separator (load_kwargs ''model_str''),
       Traceback (Exception ''TypeError: load_separator() got an unexpected keyword argument'')],
      1) \<and>
   trace_calls (fst (colab_openunmix_script strict_env)) = [] \<and>
   convert_calls (fst (colab_openunmix_script strict_env)) = [] \<and>
   trace_calls (fst (colab_openunmix_script demo_env)) =
     [(Sep demo_separator, [1, 2, 441000], None)] \<and>
   snd (convert_openunmix_script strict_env) = 0 \<and>
   trace_calls (fst (convert_openunmix_script strict_env)) =
     [(Sep demo_separator, [1, 2, 132300], Some False)] \<and>
   validation_enabled (Some False) = False"
proof -
  have "trace_calls (fst (colab_openunmix_script strict_env)) = [] \<and>
      convert_calls (fst (colab_openunmix_script strict_env)) = []"
    by (simp add: colab_openunmix_script_strict trace_calls_def convert_calls_def)
  moreover have "map_of (load_kwargs ''model_str'') ''niter'' = Some (PyInt 1)"
    by (simp add: load_kwargs_def)
  ultimately show ?thesis
    using colab_openunmix_script_traces [of env]
    by (simp add: colab_openunmix_script_strict colab_openunmix_script_demo
        convert_openunmix_script_strict validation_enabled_def)
qed

text \<open>
  C3 (as the code has it). The Demucs provisioning run is the provisioning run with a
  numpy version check. There, the check rejects every environment whose numpy version
  string starts with the character 2 (every 2.x release): \<open>run_conversion.py\<close> ends with
  exit status 1 before any model work, after printing its diagnostic when its imports
  succeeded, and so the shell script ends with a non-zero status without any model
  work. The OpenUnmix Colab provisioning run does the same whatever version is
  reported.
\<close>

theorem C3_numpy_2x_rejected:
  "startswith (numpy_version env) ''2'' \<Longrightarrow>
     snd (python_process (run_conversion env)) = 1 \<and>
     list_all (\<lambda>e. \<not> model_work e) (fst (python_process (run_conversion env))) \<and>
     (import_modules env [''torch'', ''torch.nn'', ''demucs.pretrained'', ''demucs.apply'',
        ''coremltools'', ''shutil'', ''numpy'', ''sys''] = None \<longrightarrow>
      Print [Lit ''Error: Numpy 2.x still present!'']
        \<in> set (fst (python_process (run_conversion env)))) \<and>
     snd (runner_sh env) \<noteq> 0 \<and>
     list_all (\<lambda>e. \<not> model_work e) (fst (runner_sh env)) \<and>
     colab_openunmix_script (env'\<lparr>numpy_version := numpy_version env\<rparr>) =
       colab_openunmix_script env'"
proof -
  assume v: "startswith (numpy_version env) ''2''"
  have st: "snd (python_process (run_conversion env)) = 1"
    using v by (rule run_conversion_numpy2)
  have nw: "list_all (\<lambda>e. \<not> model_work e) (fst (python_process (run_conversion env)))"
    using v by (rule run_conversion_numpy2)
  have pr: "import_modules env [''torch'', ''torch.nn'', ''demucs.pretrained'', ''demucs.apply'',
        ''coremltools'', ''shutil'', ''numpy'', ''sys''] = None \<longrightarrow>
      Print [Lit ''Error: Numpy 2.x still present!'']
        \<in> set (fst (python_process (run_conversion env)))"
    using v by (simp add: run_conversion_def python_process_alt py_simps)
  have "snd (exec_step env Python_run_conversion) \<noteq> 0"
    using st by (cases "python_process (run_conversion env)") (simp add: exec_step_def)
  moreover have "Python_run_conversion \<in> set runner_steps"
    by (simp add: runner_steps_def)
  ultimately have sh: "snd (runner_sh env) \<noteq> 0"
    unfolding runner_sh_def by (rule run_set_e_fails [rotated])
  have "list_all (\<lambda>e. \<not> model_work e) (fst (runner_sh env))"
    unfolding runner_sh_def
  proof (rule list_all_run_set_e)
    fix c
    obtain es rc where pp: "python_process (run_conversion env) = (es, rc)"
      by (cases "python_process (run_conversion env)")
    with nw have "list_all (\<lambda>e. \<not> model_work e) es" by simp
    with pp show "list_all (\<lambda>e. \<not> model_work e) (fst (exec_step env c))"
      by (cases c) (simp_all add: exec_step_def)
  qed
  with st nw pr sh show ?thesis
    using colab_openunmix_script_no_version_check [where env = env' and v = "numpy_version env"]
    by blast
qed

theorem C3_numpy_2x_rejected_witness:
  "startswith (numpy_version (demo_env\<lparr>numpy_version := ''2.0.1''\<rparr>)) ''2'' \<and>
   spec_major_version (numpy_version (demo_env\<lparr>numpy_version := ''2.0.1''\<rparr>)) = Some 2 \<and>
   snd (python_process (run_conversion (demo_env\<lparr>numpy_version := ''2.0.1''\<rparr>))) = 1 \<and>
   Print [Lit ''Error: Numpy 2.x still present!'']
     \<in> set (fst (python_process (run_conversion (demo_env\<lparr>numpy_version := ''2.0.1''\<rparr>)))) \<and>
   snd (runner_sh (demo_env\<lparr>numpy_version := ''2.0.1''\<rparr>)) \<noteq> 0 \<and>
   colab_openunmix_script (strict_env\<lparr>numpy_version := ''2.0.1''\<rparr>) =
     colab_openunmix_script strict_env"
proof -
  have v: "startswith (numpy_version (demo_env\<lparr>numpy_version := ''2.0.1''\<rparr>)) ''2''"
    by (simp add: startswith_def)
  have i: "import_modules (demo_env\<lparr>numpy_version := ''2.0.1''\<rparr>)
      [''torch'', ''torch.nn'', ''demucs.pretrained'', ''demucs.apply'',
       ''coremltools'', ''shutil'', ''numpy'', ''sys''] = None"
    by (simp add: demo_env_def)
  have m: "spec_major_version (numpy_version (demo_env\<lparr>numpy_version := ''2.0.1''\<rparr>)) = Some 2"
    by (simp add: spec_major_version_def)
  have n: "numpy_version (demo_env\<lparr>numpy_version := ''2.0.1''\<rparr>) = ''2.0.1''"
    by simp
  from C3_numpy_2x_rejected [OF v, of strict_env] i v m show ?thesis
    unfolding n by blast
qed

text \<open>
  The claim C3 as it is stated fails in the OpenUnmix Colab provisioning run, which
  installs \<open>numpy<2\<close> and checks nothing: where numpy 2.0.1 is reported, the run is the
  one of any other environment. It goes on to the model loading call, where the
  library's loader rejects the keyword \<open>model_str\<close>; with a loader that accepts the
  call, the run traces, converts and ends with status 0.
\<close>

theorem C3_openunmix_colab_unchecked_counterexample:
  "spec_major_version (numpy_version (strict_env\<lparr>numpy_version := ''2.0.1''\<rparr>)) = Some 2 \<and>
   (2 :: nat) \<le> 2 \<and>
   colab_openunmix_script (strict_env\<lparr>numpy_version := ''2.0.1''\<rparr>) =
     ([Import [''subprocess'', ''sys''],
       Print [Lit ''INSTALLING OPENUNMIX...''],
       Check_call [''/usr/bin/python3'', ''-m'', ''pip'', ''install'', ''openunmix'', ''torch'',
                   ''torchaudio'', ''coremltools'', ''numpy<2''],
       Import [''torch'', ''openunmix'', ''coremltools'', ''shutil''],
       Print [Lit ''Loading OpenUnmix (umxhq)...''],
       Load_separator (load_kwargs ''model_str''),
       Traceback (Exception ''TypeError: load_separator() got an unexpected keyword argument'')],
      1) \<and>
   model_work (Load_separator (load_kwargs ''model_str'') :: (nat, nat) effect) \<and>
   snd (colab_openunmix_script (demo_env\<lparr>numpy_version := ''2.0.1''\<rparr>)) = 0 \<and>
   length (convert_calls (fst (colab_openunmix_script (demo_env\<lparr>numpy_version := ''2.0.1''\<rparr>)))) = 1"
  by (simp add: colab_openunmix_script_no_version_check colab_openunmix_script_strict
      colab_openunmix_script_demo spec_major_version_def)

text \<open>
  C4 (as the code has it). Each of the three OpenUnmix export scripts ends with exit
  status 0 exactly when every one of its stages succeeds (the imports, the dependency
  installation, the model load, the sub-model lookup, the trace, the conversion, the
  save, the archive); when any stage fails the process ends with exit status 1 and the
  last thing it prints is the traceback of the exception that ended it. In the Demucs
  Colab script, once the child has been started, the invoking process waits for it
  (the child's whole output comes before anything the invoking process prints next),
  reports a non-zero child status in the printed diagnostic
  \<open>Script failed with code <status>\<close>, and then ends with exit status 0 itself.
\<close>

theorem C4_failures_reported:
  "((snd (convert_openunmix_script env) = 0) =
      (import_modules env [''torch'', ''openunmix'', ''coremltools'', ''shutil'', ''os''] = None \<and>
       (\<exists>sep g p.
          load_separator env (load_kwargs ''model_str_or_path'') = Inr sep \<and>
          jit_trace env (Sep sep) [1, 2, 132300] (Some False) = Inr g \<and>
          ct_convert env
            \<lparr>traced = g,
             inputs = [\<lparr>name = ''audio'', shape = [Fixed 1, Fixed 2, Fixed 132300]\<rparr>],
             convert_to = ''mlprogram'', compute_precision = FLOAT16,
             minimum_deployment_target = macOS13\<rparr> = Inr p \<and>
          save env p ''OpenUnmix.mlpackage'' = None))) \<and>
   (snd (convert_openunmix_script env) \<noteq> 0 \<longrightarrow>
      snd (convert_openunmix_script env) = 1 \<and>
      (\<exists>err. snd (convert_openunmix_main env) = Inl err \<and>
         last (fst (convert_openunmix_script env)) = Traceback err)) \<and>
   ((snd (colab_openunmix_script env) = 0) =
      (import_modules env [''subprocess'', ''sys''] = None \<and>
       check_call env [sys_executable env, ''-m'', ''pip'', ''install'', ''openunmix'', ''torch'',
                       ''torchaudio'', ''coremltools'', ''numpy<2''] = 0 \<and>
       import_modules env [''torch'', ''openunmix'', ''coremltools'', ''shutil''] = None \<and>
       (\<exists>sep g p.
          load_separator env (load_kwargs ''model_str'') = Inr sep \<and>
          jit_trace env (Sep sep) [1, 2, 441000] None = Inr g \<and>
          ct_convert env
            \<lparr>traced = g,
             inputs = [\<lparr>name = ''audio'', shape = [Fixed 1, Fixed 2, Fixed 441000]\<rparr>],
             convert_to = ''mlprogram'', compute_precision = FLOAT16,
             minimum_deployment_target = macOS13\<rparr> = Inr p \<and>
          save env p ''OpenUnmix.mlpackage'' = None \<and>
          make_archive env ''OpenUnmix'' ''zip'' ''OpenUnmix.mlpackage'' = None))) \<and>
   (snd (colab_openunmix_script env) \<noteq> 0 \<longrightarrow>
      snd (colab_openunmix_script env) = 1 \<and>
      (\<exists>err. snd (colab_openunmix_main env) = Inl err \<and>
         last (fst (colab_openunmix_script env)) = Traceback err)) \<and>
   ((snd (convert_spectral_script env) = 0) =
      (import_modules env [''torch'', ''openunmix.utils'', ''coremltools'', ''shutil'', ''os''] = None \<and>
       (\<exists>sep vocals_model g p.
          load_separator env (load_kwargs ''model_str_or_path'') = Inr sep \<and>
          map_of (target_models sep) ''vocals'' = Some vocals_model \<and>
          jit_trace env (Target vocals_model) [1, 2, 2049, 100] None = Inr g \<and>
          ct_convert env
            \<lparr>traced = g,
             inputs = [\<lparr>name = ''magnitude_spectrogram'',
                        shape = [Fixed 1, Fixed 2, Fixed 2049, RangeDim 10 5000 100]\<rparr>],
             convert_to = ''mlprogram'', compute_precision = FLOAT16,
             minimum_deployment_target = macOS13\<rparr> = Inr p \<and>
          save env p ''OpenUnmixSpectrogram.mlpackage'' = None \<and>
          make_archive env ''OpenUnmixSpectrogram'' ''zip''
            ''OpenUnmixSpectrogram.mlpackage'' = None))) \<and>
   (snd (convert_spectral_script env) \<noteq> 0 \<longrightarrow>
      snd (convert_spectral_script env) = 1 \<and>
      (\<exists>err. snd (convert_spectral_main env) = Inl err \<and>
         last (fst (convert_spectral_script env)) = Traceback err)) \<and>
   (import_modules env [''subprocess''] = None \<and> write_file env ''runner.sh'' = None \<and>
    spawn env [''bash'', ''runner.sh''] = None \<longrightarrow>
      colab_script env =
        ([Import [''subprocess''], Write_file ''runner.sh'',
          Print [Lit ''Starting isolated shell execution...''],
          Print [Lit ''----------------------------------------------------------------''],
          Subprocess_run [''bash'', ''runner.sh'']]
         @ fst (runner_sh env)
         @ (if snd (runner_sh env) \<noteq> 0
            then [Print [Lit ''Script failed with code '', Fmt_int (snd (runner_sh env))]]
            else []),
         0))"
proof -
  have n1: "\<forall>n. snd (convert_openunmix_main env) \<noteq> Inl (SystemExit n)"
    by (simp add: convert_openunmix_main_no_exit)
  have n2: "\<forall>n. snd (colab_openunmix_main env) \<noteq> Inl (SystemExit n)"
    by (simp add: colab_openunmix_main_no_exit)
  have n3: "\<forall>n. snd (convert_spectral_main env) \<noteq> Inl (SystemExit n)"
    by (simp add: convert_spectral_main_no_exit)
  have a1: "(snd (convert_openunmix_script env) = 0) = (snd (convert_openunmix_main env) = Inr ())"
    unfolding convert_openunmix_script_def using python_process_status(1) [OF n1] by auto
  have a2: "(snd (colab_openunmix_script env) = 0) = (snd (colab_openunmix_main env) = Inr ())"
    unfolding colab_openunmix_script_def using python_process_status(1) [OF n2] by auto
  have a3: "(snd (convert_spectral_script env) = 0) = (snd (convert_spectral_main env) = Inr ())"
    unfolding convert_spectral_script_def using python_process_status(1) [OF n3] by auto
  note b1 = python_process_status(2) [OF n1, folded convert_openunmix_script_def]
  note b2 = python_process_status(2) [OF n2, folded colab_openunmix_script_def]
  note b3 = python_process_status(2) [OF n3, folded convert_spectral_script_def]
  have c: "import_modules env [''subprocess''] = None \<and> write_file env ''runner.sh'' = None \<and>
    spawn env [''bash'', ''runner.sh''] = None \<longrightarrow>
      colab_script env =
        ([Import [''subprocess''], Write_file ''runner.sh'',
          Print [Lit ''Starting isolated shell execution...''],
          Print [Lit ''----------------------------------------------------------------''],
          Subprocess_run [''bash'', ''runner.sh'']]
         @ fst (runner_sh env)
         @ (if snd (runner_sh env) \<noteq> 0
            then [Print [Lit ''Script failed with code '', Fmt_int (snd (runner_sh env))]]
            else []),
         0)"
    using colab_script_started [of env] by blast
  show ?thesis
    unfolding a1 a2 a3 convert_openunmix_main_ok colab_openunmix_main_ok convert_spectral_main_ok
    using b1 b2 b3 c
    unfolding a1 a2 a3 convert_openunmix_main_ok colab_openunmix_main_ok convert_spectral_main_ok
    by (intro conjI) (rule refl | assumption)+
qed

theorem C4_failures_reported_witness:
  "snd (convert_openunmix_script failing_env) = 1 \<and>
   last (fst (convert_openunmix_script failing_env)) = Traceback (Exception ''unsupported op'') \<and>
   snd (colab_openunmix_script failing_env) = 1 \<and>
   last (fst (colab_openunmix_script failing_env)) = Traceback (Exception ''unsupported op'') \<and>
   snd (convert_spectral_script failing_env) = 1 \<and>
   last (fst (convert_spectral_script failing_env)) = Traceback (Exception ''unsupported op'') \<and>
   snd (runner_sh failing_env) = 1 \<and>
   snd (colab_script failing_env) = 0 \<and>
   last (fst (colab_script failing_env)) = Print [Lit ''Script failed with code '', Fmt_int 1] \<and>
   snd (convert_openunmix_script demo_env) = 0 \<and>
   snd (colab_openunmix_script demo_env) = 0 \<and>
   snd (convert_spectral_script demo_env) = 0"
proof -
  note t = C4_failures_reported [of failing_env]
  note u = C4_failures_reported [of demo_env]
  have a: "snd (convert_openunmix_main failing_env) = Inl (Exception ''unsupported op'')"
    by (simp add: convert_openunmix_main_def convert_openunmix_def py_simps failing_env_def
        demo_env_def)
  have b: "snd (colab_openunmix_main failing_env) = Inl (Exception ''unsupported op'')"
    by (simp add: colab_openunmix_main_def colab_convert_openunmix_def subprocess_check_call_def
        py_simps failing_env_def demo_env_def)
  have c: "snd (convert_spectral_main failing_env) = Inl (Exception ''unsupported op'')"
    by (simp add: convert_spectral_main_def convert_spectral_def py_simps failing_env_def
        demo_env_def demo_separator_def)
  have d: "import_modules failing_env [''subprocess''] = None \<and>
      write_file failing_env ''runner.sh'' = None \<and>
      spawn failing_env [''bash'', ''runner.sh''] = None"
    by (simp add: failing_env_def demo_env_def)
  have na: "snd (convert_openunmix_script failing_env) \<noteq> 0"
    using t [THEN conjunct1] by (simp add: failing_env_def demo_env_def)
  have nb: "snd (colab_openunmix_script failing_env) \<noteq> 0"
    using t [THEN conjunct2, THEN conjunct2, THEN conjunct1]
    by (simp add: failing_env_def demo_env_def)
  have nc: "snd (convert_spectral_script failing_env) \<noteq> 0"
    using t [THEN conjunct2, THEN conjunct2, THEN conjunct2, THEN conjunct2, THEN conjunct1]
    by (simp add: failing_env_def demo_env_def)
  from t na a have a': "snd (convert_openunmix_script failing_env) = 1 \<and>
      last (fst (convert_openunmix_script failing_env)) = Traceback (Exception ''unsupported op'')"
    by auto
  from t nb b have b': "snd (colab_openunmix_script failing_env) = 1 \<and>
      last (fst (colab_openunmix_script failing_env)) = Traceback (Exception ''unsupported op'')"
    by auto
  from t nc c have c': "snd (convert_spectral_script failing_env) = 1 \<and>
      last (fst (convert_spectral_script failing_env)) = Traceback (Exception ''unsupported op'')"
    by auto
  from t d have d': "colab_script failing_env =
        ([Import [''subprocess''], Write_file ''runner.sh'',
          Print [Lit ''Starting isolated shell execution...''],
          Print [Lit ''----------------------------------------------------------------''],
          Subprocess_run [''bash'', ''runner.sh'']]
         @ fst (runner_sh failing_env)
         @ (if snd (runner_sh failing_env) \<noteq> 0
            then [Print [Lit ''Script failed with code '', Fmt_int (snd (runner_sh failing_env))]]
            else []),
         0)"
    by blast
  have e: "snd (runner_sh failing_env) = 1" by (simp add: runner_sh_failing)
  from d' e have f: "snd (colab_script failing_env) = 0 \<and>
      last (fst (colab_script failing_env)) = Print [Lit ''Script failed with code '', Fmt_int 1]"
    by simp
  have oa: "snd (convert_openunmix_script demo_env) = 0"
    using u [THEN conjunct1] by (simp add: demo_env_def)
  have ob: "snd (colab_openunmix_script demo_env) = 0"
    using u [THEN conjunct2, THEN conjunct2, THEN conjunct1] by (simp add: demo_env_def)
  have oc: "snd (convert_spectral_script demo_env) = 0"
    using u [THEN conjunct2, THEN conjunct2, THEN conjunct2, THEN conjunct2, THEN conjunct1]
    by (simp add: demo_env_def demo_separator_def)
  from a' b' c' e f oa ob oc show ?thesis by blast
qed

text \<open>
  The claim C4 as it is stated fails: with numpy 2.0.1 in the virtual environment the
  subprocess ends with status 1, and the invoking process ends with status 0.
\<close>

theorem C4_exit_status_counterexample:
  "snd (runner_sh failing_env) = 1 \<and> snd (colab_script failing_env) = 0"
proof -
  have "import_modules failing_env [''subprocess''] = None"
    and "write_file failing_env ''runner.sh'' = None"
    and "spawn failing_env [''bash'', ''runner.sh''] = None"
    by (simp_all add: failing_env_def demo_env_def)
  then have "snd (colab_script failing_env) = 0"
    by (simp add: colab_script_started)
  then show ?thesis by (simp add: runner_sh_failing)
qed


end
